theory Spec2Isabelle
  imports Complex_Main "HOL-Library.Sublist"
begin

section \<open>Python strings\<close>

text \<open>
  A Python \<open>str\<close> is a sequence of code points. The model is \<open>string\<close>, each \<open>char\<close> read as
  the code point of the same number, so it covers every text whose code points are below 256
  (ASCII and Latin-1, which holds all the letters of Spanish). The tables below are Python's
  own for that range: \<open>str.isspace\<close> is true of U+0009..U+000D, U+001C..U+001F, U+0020,
  U+0085 and U+00A0, and \<open>str.lower\<close> adds 32 to A..Z and to U+00C0..U+00DE except U+00D7.
\<close>

definition NL :: char where
  "NL = CHR 0x0A"

definition py_isspace :: "char \<Rightarrow> bool" where
  "py_isspace c =
     (let n = (of_char c :: nat)
      in (9 \<le> n \<and> n \<le> 13) \<or> (28 \<le> n \<and> n \<le> 31) \<or> n = 32 \<or> n = 133 \<or> n = 160)"

definition py_lower_char :: "char \<Rightarrow> char" where
  "py_lower_char c =
     (let n = (of_char c :: nat)
      in if (65 \<le> n \<and> n \<le> 90) \<or> (192 \<le> n \<and> n \<le> 222 \<and> n \<noteq> 215)
         then char_of (n + 32) else c)"

definition py_lower :: "string \<Rightarrow> string" where
  "py_lower s = map py_lower_char s"

text \<open>\<open>s.strip()\<close>: leading and trailing whitespace removed.\<close>

definition py_strip :: "string \<Rightarrow> string" where
  "py_strip s = rev (dropWhile py_isspace (rev (dropWhile py_isspace s)))"

text \<open>\<open>s.split("\n")\<close>: the pieces between newlines; never the empty list.\<close>

fun py_split_nl :: "string \<Rightarrow> string list" where
  "py_split_nl [] = [[]]"
| "py_split_nl (c # cs) =
     (if c = NL then [] # py_split_nl cs
      else (case py_split_nl cs of
              [] \<Rightarrow> [[c]]
            | l # ls \<Rightarrow> (c # l) # ls))"

text \<open>\<open>sub in s\<close>: a scan for the first position where \<open>sub\<close> starts.\<close>

fun py_in :: "string \<Rightarrow> string \<Rightarrow> bool" where
  "py_in sub [] = (sub = [])"
| "py_in sub (c # cs) = (prefix sub (c # cs) \<or> py_in sub cs)"

definition py_startswith :: "string \<Rightarrow> string \<Rightarrow> bool" where
  "py_startswith s p = (take (length p) s = p)"

text \<open>\<open>sep.join(parts)\<close>.\<close>

fun py_join :: "string \<Rightarrow> string list \<Rightarrow> string" where
  "py_join sep [] = []"
| "py_join sep [p] = p"
| "py_join sep (p # q # ps) = p @ sep @ py_join sep (q # ps)"

section \<open>Lyric validation\<close>

definition secciones_validas :: "string list" where
  "secciones_validas = [''[verse]'', ''[chorus]'', ''[bridge]'', ''[intro]'', ''[outro]'']"

definition msg_letra_vacia :: string where
  "msg_letra_vacia = ''La letra no puede estar vac'' @ [CHR 0xED] @ ''a''"

definition msg_sin_seccion :: string where
  "msg_sin_seccion =
     ''La letra debe contener al menos una secci'' @ [CHR 0xF3] @
     ''n ([verse], [chorus], etc.)''"

definition msg_pocas_lineas :: string where
  "msg_pocas_lineas =
     ''La letra debe contener al menos 4 l'' @ [CHR 0xED] @ ''neas de texto''"

text \<open>
  \<open>GeneradorMusicaEspanol.validar_letra\<close>. It reads nothing of \<open>self\<close>. A string is
  false in a condition exactly when it is empty.
\<close>

definition validar_letra :: "string \<Rightarrow> bool \<times> string" where
  "validar_letra letra =
     (if letra = [] \<or> py_strip letra = [] then (False, msg_letra_vacia)
      else
        let tiene_seccion =
              list_ex (\<lambda>seccion. py_in seccion (py_lower letra)) secciones_validas
        in if \<not> tiene_seccion then (False, msg_sin_seccion)
           else
             let lineas =
                   map py_strip
                     (filter (\<lambda>l. py_strip l \<noteq> [] \<and> \<not> py_startswith (py_strip l) ''['')
                        (py_split_nl letra))
             in if length lineas < 4 then (False, msg_pocas_lineas)
                else (True, []))"

section \<open>Lyric composer\<close>

text \<open>
  The loop \<open>for i, verso in enumerate(versos)\<close> of \<open>crear_letra_personalizada\<close>, with the
  index and the list \<open>partes\<close> built so far.
\<close>

fun bucle_versos :: "nat \<Rightarrow> string list \<Rightarrow> string \<Rightarrow> string list \<Rightarrow> string list" where
  "bucle_versos i [] coro partes = partes"
| "bucle_versos i (verso # resto) coro partes =
     (let partes1 = partes @ [''[verse]'' @ [NL] @ verso];
          partes2 = (if i = 0 then partes1 @ [''[chorus]'' @ [NL] @ coro] else partes1)
      in bucle_versos (i + 1) resto coro partes2)"

text \<open>\<open>if bridge:\<close> is false for \<open>None\<close> and for the empty string.\<close>

definition crear_letra_personalizada :: "string list \<Rightarrow> string \<Rightarrow> string option \<Rightarrow> string" where
  "crear_letra_personalizada versos coro bridge =
     (let partes = bucle_versos 0 versos coro [];
          partes_finales =
            (case bridge of
               None \<Rightarrow> partes
             | Some b \<Rightarrow>
                 if b \<noteq> []
                 then (partes @ [''[bridge]'' @ [NL] @ b]) @ [''[chorus]'' @ [NL] @ coro]
                 else partes)
      in py_join [NL, NL] partes_finales)"

section \<open>Configuration and result records\<close>

text \<open>
  The float fields hold literals that binary floating point represents exactly (60.0, 15.0,
  10.0, 0.5, 0.0, 3.0, 30.0, 12.0); the code never computes with them, so they are reals.
\<close>

record ConfiguracionGeneracion =
  duracion_segundos :: real
  formato_salida :: string
  pasos_inferencia :: int
  escala_guia :: real
  tipo_scheduler :: string
  tipo_cfg :: string
  escala_omega :: real
  intervalo_guia :: real
  decaimiento_guia :: real
  escala_guia_minima :: real
  usar_erg_tag :: bool
  usar_erg_letra :: bool
  usar_erg_difusion :: bool
  semillas :: "int list option"
  directorio_salida :: string
  ruta_checkpoint :: "string option"
  id_dispositivo :: int
  usar_bf16 :: bool
  usar_cpu_offload :: bool
  usar_torch_compile :: bool

text \<open>\<open>ConfiguracionGeneracion()\<close>: every field at the default of the dataclass.\<close>

definition config_por_defecto :: ConfiguracionGeneracion where
  "config_por_defecto =
     \<lparr> duracion_segundos = 60, formato_salida = ''wav'', pasos_inferencia = 60,
       escala_guia = 15, tipo_scheduler = ''euler'', tipo_cfg = ''apg'', escala_omega = 10,
       intervalo_guia = 1 / 2, decaimiento_guia = 0, escala_guia_minima = 3,
       usar_erg_tag = True, usar_erg_letra = True, usar_erg_difusion = True,
       semillas = None, directorio_salida = ''./salidas_espanol'', ruta_checkpoint = None,
       id_dispositivo = 0, usar_bf16 = True, usar_cpu_offload = False,
       usar_torch_compile = False \<rparr>"

text \<open>
  A Python value as the external pipeline may return it; the code inspects it with
  \<open>isinstance\<close>, indexing and \<open>dict.get\<close>.
\<close>

datatype pyval =
    PNone
  | PBool bool
  | PInt int
  | PStr string
  | PList "pyval list"
  | PTuple "pyval list"
  | PDict "(pyval \<times> pyval) list"

record ResultadoGeneracion =
  exitoso :: bool
  ruta_audio :: "string option"
  mensaje :: string
  parametros :: "(pyval \<times> pyval) list"
  tiempos :: pyval
  semillas_usadas :: pyval

text \<open>\<open>ResultadoGeneracion(exitoso=False, mensaje=m)\<close>, the other fields at their defaults.\<close>

definition resultado_fallido :: "string \<Rightarrow> ResultadoGeneracion" where
  "resultado_fallido m =
     \<lparr> exitoso = False, ruta_audio = None, mensaje = m, parametros = [],
       tiempos = PDict [], semillas_usadas = PList [] \<rparr>"

section \<open>Catalog data\<close>

text \<open>\<open>GENEROS_ESPANOL\<close>, in the insertion order that \<open>keys()\<close> iterates.\<close>

definition GENEROS_ESPANOL :: "(string \<times> string) list" where
  "GENEROS_ESPANOL =
     [ (''pop_latino'', ''pop, latin pop, tropical, catchy, upbeat, spanish''),
       (''reggaeton'', ''reggaeton, urban latin, dembow, perreo, trap latino''),
       (''balada'', ''ballad, romantic, slow, emotional, acoustic guitar, piano''),
       (''rock_espanol'',
          ''rock en espa'' @ [CHR 0xF1] @ ''ol, rock latino, guitar, drums, energetic''),
       (''cumbia'', ''cumbia, tropical, accordion, dance, festive, colombian''),
       (''salsa'', ''salsa, tropical, brass, piano, percussion, dance''),
       (''bachata'', ''bachata, romantic, guitar, dominican, sensual''),
       (''flamenco'', ''flamenco, spanish guitar, passionate, rhythmic, andalusian''),
       (''mariachi'', ''mariachi, mexican, trumpet, violin, traditional''),
       (''tango'', ''tango, argentine, bandoneon, dramatic, passionate''),
       (''urbano'', ''urban, trap, hip hop latino, 808, autotune''),
       (''folclore'', ''folk, acoustic, traditional, spanish, guitar'') ]"

text \<open>
  \<open>PLANTILLAS_LETRAS["amor"]\<close>, the only template the generator reads. The source writes
  it as one literal; here its lines are joined by the newline.
\<close>

definition plantilla_amor :: string where
  "plantilla_amor = py_join [NL]
     [ ''[verse]'',
       ''Cada vez que te veo pasar'',
       ''Mi coraz'' @ [CHR 0xF3] @ ''n empieza a latir'',
       ''No puedo dejar de pensar'',
       ''En todo lo que quiero decir'',
       [],
       ''[chorus]'',
       ''Porque t'' @ [CHR 0xFA] @ '' eres mi luz'',
       ''Mi camino y mi raz'' @ [CHR 0xF3] @ ''n'',
       ''Contigo todo es mejor'',
       ''Eres due'' @ [CHR 0xF1] @ ''a de mi coraz'' @ [CHR 0xF3] @ ''n'',
       [],
       ''[verse]'',
       ''Las noches son m'' @ [CHR 0xE1] @ ''s largas sin ti'',
       ''Los d'' @ [CHR 0xED] @ ''as pierden su color'',
       ''Pero cuando est'' @ [CHR 0xE1] @ ''s aqu'' @ [CHR 0xED],
       ''Todo brilla con tu amor'',
       [],
       ''[chorus]'',
       ''Porque t'' @ [CHR 0xFA] @ '' eres mi luz'',
       ''Mi camino y mi raz'' @ [CHR 0xF3] @ ''n'',
       ''Contigo todo es mejor'',
       ''Eres due'' @ [CHR 0xF1] @ ''a de mi coraz'' @ [CHR 0xF3] @ ''n'' ]"

section \<open>The outside world\<close>

text \<open>
  The duration argument is a Python float: a finite number, an infinity or NaN. The code only
  compares it with the integers 10 and 240, which is exact; every comparison with NaN is
  false.
\<close>

datatype pyfloat = Finito real | Inf_pos | Inf_neg | NaN

fun menor_que :: "pyfloat \<Rightarrow> real \<Rightarrow> bool" where
  "menor_que (Finito x) c = (x < c)"
| "menor_que Inf_neg c = True"
| "menor_que Inf_pos c = False"
| "menor_que NaN c = False"

fun mayor_que :: "pyfloat \<Rightarrow> real \<Rightarrow> bool" where
  "mayor_que (Finito x) c = (x > c)"
| "mayor_que Inf_pos c = True"
| "mayor_que Inf_neg c = False"
| "mayor_que NaN c = False"

text \<open>The keyword arguments of the constructor \<open>ACEStepPipeline(...)\<close>.\<close>

record args_inicializacion =
  checkpoint_dir :: "string option"
  device_id :: int
  dtype :: string
  torch_compile :: bool
  cpu_offload :: bool

text \<open>The keyword arguments of the call \<open>self._pipeline(...)\<close>.\<close>

record args_pipeline =
  format :: string
  audio_duration :: pyfloat
  prompt :: string
  lyrics :: string
  infer_step :: int
  guidance_scale :: real
  scheduler_type :: string
  cfg_type :: string
  omega_scale :: real
  manual_seeds :: "int list option"
  guidance_interval :: real
  guidance_interval_decay :: real
  min_guidance_scale :: real
  use_erg_tag :: bool
  use_erg_lyric :: bool
  use_erg_diffusion :: bool
  save_path :: string

text \<open>
  Everything the generator does to the outside is an event, appended to a trace in the order
  it happens: importing and constructing the pipeline, printing, creating the output directory
  and calling the pipeline handle (a pipeline object is its identity, a number).
\<close>

datatype evento =
    EvCrearPipeline args_inicializacion
  | EvPrint string
  | EvMakedirs string
  | EvLlamada nat args_pipeline

text \<open>An exception (an instance of \<open>Exception\<close>) is the text that \<open>str(e)\<close> gives.\<close>

datatype excepcion = Excepcion string

text \<open>
  The outside world answers each request from the trace so far and the arguments, so it may
  answer the same request differently at different times. \<open>ACEStepPipeline\<close> stands for the
  import and the constructor together: a handle, or the exception either raised.
  \<open>os_makedirs\<close> is \<open>os.makedirs(path, exist_ok=True)\<close>: \<open>None\<close> when it returns.
  \<open>invocar\<close> is the call of a handle: the value it returns, or the exception it raises.
\<close>

record entorno =
  ACEStepPipeline :: "evento list \<Rightarrow> args_inicializacion \<Rightarrow> excepcion + nat"
  os_makedirs :: "evento list \<Rightarrow> string \<Rightarrow> excepcion option"
  invocar :: "evento list \<Rightarrow> nat \<Rightarrow> args_pipeline \<Rightarrow> excepcion + pyval"

text \<open>\<open>os.path.join(a, b)\<close> of two components, as \<open>posixpath\<close> computes it.\<close>

definition os_path_join :: "string \<Rightarrow> string \<Rightarrow> string" where
  "os_path_join a b =
     (if py_startswith b ''/'' then b
      else if a = [] \<or> (a \<noteq> [] \<and> last a = CHR ''/'') then a @ b
      else a @ ''/'' @ b)"

section \<open>The generator\<close>

text \<open>The attributes of a \<open>GeneradorMusicaEspanol\<close>: \<open>config\<close>, \<open>_pipeline\<close>, \<open>_inicializado\<close>.\<close>

record GeneradorMusicaEspanol =
  config :: ConfiguracionGeneracion
  pipeline :: "nat option"
  inicializado :: bool

text \<open>
  \<open>__init__\<close>: a dataclass instance is true in a condition, so \<open>config or
  ConfiguracionGeneracion()\<close> is the given configuration when there is one.
\<close>

definition nuevo_generador :: "ConfiguracionGeneracion option \<Rightarrow> GeneradorMusicaEspanol" where
  "nuevo_generador c =
     \<lparr> config = (case c of None \<Rightarrow> config_por_defecto | Some cfg \<Rightarrow> cfg),
       pipeline = None, inicializado = False \<rparr>"

definition args_de_config :: "ConfiguracionGeneracion \<Rightarrow> args_inicializacion" where
  "args_de_config c =
     \<lparr> checkpoint_dir = ruta_checkpoint c, device_id = id_dispositivo c,
       dtype = (if usar_bf16 c then ''bfloat16'' else ''float32''),
       torch_compile = usar_torch_compile c, cpu_offload = usar_cpu_offload c \<rparr>"

text \<open>\<open>_inicializar_pipeline\<close>: the value returned, the generator and the trace after it.\<close>

definition inicializar_pipeline ::
  "entorno \<Rightarrow> GeneradorMusicaEspanol \<Rightarrow> evento list
     \<Rightarrow> bool \<times> GeneradorMusicaEspanol \<times> evento list" where
  "inicializar_pipeline env self tr =
     (if inicializado self then (True, self, tr)
      else
        let a = args_de_config (config self)
        in case ACEStepPipeline env tr a of
             Inr h \<Rightarrow>
               (True, self\<lparr>pipeline := Some h, inicializado := True\<rparr>,
                tr @ [EvCrearPipeline a])
           | Inl (Excepcion e) \<Rightarrow>
               (False, self,
                tr @ [EvCrearPipeline a, EvPrint (''Error al inicializar el pipeline: '' @ e)]))"

definition msg_genero_invalido :: "string \<Rightarrow> string" where
  "msg_genero_invalido genero =
     ''G'' @ [CHR 0xE9] @ ''nero '' @ [CHR 0x27] @ genero @ [CHR 0x27] @ '' no v'' @ [CHR 0xE1] @
     ''lido. G'' @ [CHR 0xE9] @ ''neros disponibles: '' @
     py_join '', '' (map fst GENEROS_ESPANOL)"

definition msg_duracion :: string where
  "msg_duracion = ''La duraci'' @ [CHR 0xF3] @ ''n debe estar entre 10 y 240 segundos''"

definition msg_no_inicializado :: string where
  "msg_no_inicializado =
     ''No se pudo inicializar el modelo. Verifica que tienes suficiente memoria GPU.''"

definition msg_exito :: string where
  "msg_exito = ''Generaci'' @ [CHR 0xF3] @ ''n completada exitosamente''"

definition msg_resultado_invalido :: string where
  "msg_resultado_invalido = ''El modelo no retorn'' @ [CHR 0xF3] @ '' un resultado v'' @
     [CHR 0xE1] @ ''lido''"

definition msg_error_generacion :: "string \<Rightarrow> string" where
  "msg_error_generacion e = ''Error durante la generaci'' @ [CHR 0xF3] @ ''n: '' @ e"

text \<open>\<open>params.get(k, d)\<close> on the dictionary \<open>params\<close>.\<close>

definition dict_get :: "(pyval \<times> pyval) list \<Rightarrow> string \<Rightarrow> pyval \<Rightarrow> pyval" where
  "dict_get params k d = (case map_of params (PStr k) of None \<Rightarrow> d | Some v \<Rightarrow> v)"

text \<open>
  The lines of \<open>generar_cancion\<close> that read the value the pipeline returned: it must be a
  non-empty list; the first element is the path when it is a string, the last element the
  parameters when it is a dictionary.
\<close>

definition extraer_resultado :: "pyval \<Rightarrow> ResultadoGeneracion" where
  "extraer_resultado resultado =
     (case resultado of
        PList (x # xs) \<Rightarrow>
          let ruta = (case x of PStr s \<Rightarrow> Some s | _ \<Rightarrow> None);
              params = (case last (x # xs) of PDict d \<Rightarrow> d | _ \<Rightarrow> [])
          in \<lparr> exitoso = True, ruta_audio = ruta, mensaje = msg_exito, parametros = params,
               tiempos = dict_get params ''timecosts'' (PDict []),
               semillas_usadas = dict_get params ''actual_seeds'' (PList []) \<rparr>
      | _ \<Rightarrow> resultado_fallido msg_resultado_invalido)"

text \<open>
  \<open>semillas = [semilla] if semilla else self.config.semillas\<close>: an integer is true in a
  condition exactly when it is not zero, and \<open>None\<close> is false.
\<close>

definition resolver_semillas :: "int option \<Rightarrow> ConfiguracionGeneracion \<Rightarrow> int list option" where
  "resolver_semillas semilla c =
     (case semilla of
        None \<Rightarrow> semillas c
      | Some s \<Rightarrow> if s \<noteq> 0 then Some [s] else semillas c)"

text \<open>
  The path handed to the pipeline: \<open>if nombre_archivo:\<close> is false for \<open>None\<close> and for the
  empty string.
\<close>

definition ruta_de_salida :: "ConfiguracionGeneracion \<Rightarrow> string option \<Rightarrow> string" where
  "ruta_de_salida c nombre_archivo =
     (case nombre_archivo of
        None \<Rightarrow> directorio_salida c
      | Some n \<Rightarrow>
          if n \<noteq> [] then os_path_join (directorio_salida c) (n @ ''.'' @ formato_salida c)
          else directorio_salida c)"

definition argumentos_llamada ::
  "ConfiguracionGeneracion \<Rightarrow> pyfloat \<Rightarrow> string \<Rightarrow> string \<Rightarrow> int list option \<Rightarrow> string
     \<Rightarrow> args_pipeline" where
  "argumentos_llamada c duracion prompt_genero letra sems ruta_salida =
     \<lparr> format = formato_salida c, audio_duration = duracion, prompt = prompt_genero,
       lyrics = letra, infer_step = pasos_inferencia c, guidance_scale = escala_guia c,
       scheduler_type = tipo_scheduler c, cfg_type = tipo_cfg c,
       omega_scale = escala_omega c, manual_seeds = sems,
       guidance_interval = intervalo_guia c, guidance_interval_decay = decaimiento_guia c,
       min_guidance_scale = escala_guia_minima c, use_erg_tag = usar_erg_tag c,
       use_erg_lyric = usar_erg_letra c, use_erg_diffusion = usar_erg_difusion c,
       save_path = ruta_salida \<rparr>"

text \<open>
  The \<open>try\<close> block of \<open>generar_cancion\<close> with its \<open>except Exception\<close>: the result and the
  trace after it. A missing key raises \<open>KeyError\<close>, whose text is the key in quotes; calling
  \<open>None\<close> raises \<open>TypeError\<close>; both are caught like an exception of the pipeline.
\<close>

definition bloque_try ::
  "entorno \<Rightarrow> GeneradorMusicaEspanol \<Rightarrow> evento list \<Rightarrow> string \<Rightarrow> string \<Rightarrow> pyfloat
     \<Rightarrow> int option \<Rightarrow> string \<Rightarrow> ResultadoGeneracion \<times> evento list" where
  "bloque_try env self tr genero letra duracion semilla ruta_salida =
     (case map_of GENEROS_ESPANOL genero of
        None \<Rightarrow>
          (resultado_fallido (msg_error_generacion ([CHR 0x27] @ genero @ [CHR 0x27])), tr)
      | Some prompt_genero \<Rightarrow>
          let sems = resolver_semillas semilla (config self)
          in case pipeline self of
               None \<Rightarrow>
                 (resultado_fallido
                    (msg_error_generacion
                       ([CHR 0x27] @ ''NoneType'' @ [CHR 0x27] @ '' object is not callable'')),
                  tr)
             | Some h \<Rightarrow>
                 let a = argumentos_llamada (config self) duracion prompt_genero letra sems
                           ruta_salida
                 in case invocar env tr h a of
                      Inl (Excepcion e) \<Rightarrow>
                        (resultado_fallido (msg_error_generacion e), tr @ [EvLlamada h a])
                    | Inr resultado \<Rightarrow> (extraer_resultado resultado, tr @ [EvLlamada h a]))"

text \<open>
  \<open>generar_cancion\<close>: what the call gives (\<open>Inr\<close> the result returned, \<open>Inl\<close> an exception
  that leaves the method), the generator and the trace after it. \<open>os.makedirs\<close> is called
  outside the \<open>try\<close> block, so its exception leaves the method.
\<close>

definition generar_cancion ::
  "entorno \<Rightarrow> GeneradorMusicaEspanol \<Rightarrow> evento list \<Rightarrow> string \<Rightarrow> string option \<Rightarrow> pyfloat
     \<Rightarrow> int option \<Rightarrow> string option
     \<Rightarrow> (excepcion + ResultadoGeneracion) \<times> GeneradorMusicaEspanol \<times> evento list" where
  "generar_cancion env self tr genero letra duracion semilla nombre_archivo =
     (if genero \<notin> set (map fst GENEROS_ESPANOL)
      then (Inr (resultado_fallido (msg_genero_invalido genero)), self, tr)
      else
        let letra1 = (case letra of None \<Rightarrow> plantilla_amor | Some l \<Rightarrow> l);
            (es_valida, error) = validar_letra letra1
        in if \<not> es_valida
           then (Inr (resultado_fallido (''Error en la letra: '' @ error)), self, tr)
           else if menor_que duracion 10 \<or> mayor_que duracion 240
           then (Inr (resultado_fallido msg_duracion), self, tr)
           else
             let (ok, self1, tr1) = inicializar_pipeline env self tr
             in if \<not> ok then (Inr (resultado_fallido msg_no_inicializado), self1, tr1)
                else
                  let dir = directorio_salida (config self1)
                  in case os_makedirs env tr1 dir of
                       Some e \<Rightarrow> (Inl e, self1, tr1 @ [EvMakedirs dir])
                     | None \<Rightarrow>
                         let ruta_salida = ruta_de_salida (config self1) nombre_archivo;
                             (r, tr2) = bloque_try env self1 (tr1 @ [EvMakedirs dir]) genero
                                          letra1 duracion semilla ruta_salida
                         in (Inr r, self1, tr2))"

text \<open>
  \<open>generar_demo\<close>: a temporary generator on the demo configuration takes the handle and the
  flag of \<open>self\<close>; \<open>self\<close> itself is not assigned to.
\<close>

definition config_demo :: ConfiguracionGeneracion where
  "config_demo =
     config_por_defecto\<lparr>duracion_segundos := 30, pasos_inferencia := 27, escala_guia := 12\<rparr>"

definition generar_demo ::
  "entorno \<Rightarrow> GeneradorMusicaEspanol \<Rightarrow> evento list \<Rightarrow> string
     \<Rightarrow> (excepcion + ResultadoGeneracion) \<times> GeneradorMusicaEspanol \<times> evento list" where
  "generar_demo env self tr genero =
     (let generador_demo =
            (nuevo_generador (Some config_demo))
              \<lparr>pipeline := pipeline self, inicializado := inicializado self\<rparr>;
          (r, g, tr1) = generar_cancion env generador_demo tr genero None (Finito 30) None
                          (Some (''demo_'' @ genero))
      in (r, self, tr1))"

section \<open>Reference statements and example inputs\<close>

text \<open>
  The lyric check as the specification words its third step, for comparison with
  \<open>validar_letra\<close>: a line is dropped when it is empty or when its stripped form starts
  with an opening bracket.
\<close>

definition validar_letra_literal :: "string \<Rightarrow> bool \<times> string" where
  "validar_letra_literal t =
     (if list_all py_isspace t then (False, msg_letra_vacia)
      else if \<not> list_ex (\<lambda>m. py_in m (py_lower t)) secciones_validas
      then (False, msg_sin_seccion)
      else if length (filter (\<lambda>l. \<not> (l = [] \<or> py_startswith (py_strip l) ''[''))
                        (py_split_nl t)) < 4
      then (False, msg_pocas_lineas)
      else (True, []))"

definition letra_cuatro_lineas :: string where
  "letra_cuatro_lineas =
     ''[chorus]'' @ [NL] @ ''l1'' @ [NL] @ ''l2'' @ [NL] @ ''l3'' @ [NL] @ ''l4''"

definition letra_linea_en_blanco :: string where
  "letra_linea_en_blanco =
     ''[verse]'' @ [NL] @ ''uno'' @ [NL] @ ''dos'' @ [NL] @ ''tres'' @ [NL] @ '' ''"

text \<open>A block of the composed lyric: the marker, a newline, the text.\<close>

definition bloque :: "string \<Rightarrow> string \<Rightarrow> string" where
  "bloque marcador texto = marcador @ [NL] @ texto"

text \<open>
  The blocks the composer is to emit for a non-empty verse list: the first verse, the chorus,
  the other verses in order and, for a bridge that is not the empty string, the bridge and
  the chorus once more.
\<close>

definition bloques_esperados :: "string list \<Rightarrow> string \<Rightarrow> string option \<Rightarrow> string list" where
  "bloques_esperados versos coro bridge =
     [bloque ''[verse]'' (hd versos), bloque ''[chorus]'' coro] @
     map (bloque ''[verse]'') (tl versos) @
     (case bridge of
        None \<Rightarrow> []
      | Some b \<Rightarrow> if b = [] then [] else [bloque ''[bridge]'' b, bloque ''[chorus]'' coro])"

text \<open>The three checks of \<open>generar_cancion\<close> on its arguments all pass.\<close>

definition entrada_valida :: "string \<Rightarrow> string option \<Rightarrow> pyfloat \<Rightarrow> bool" where
  "entrada_valida genero letra duracion =
     (genero \<in> set (map fst GENEROS_ESPANOL) \<and>
      fst (validar_letra (case letra of None \<Rightarrow> plantilla_amor | Some l \<Rightarrow> l)) \<and>
      \<not> menor_que duracion 10 \<and> \<not> mayor_que duracion 240)"

text \<open>
  Example worlds. In \<open>entorno_ok\<close> nothing raises and the pipeline returns a path and its
  parameters. In \<open>entorno_directorio_vacio\<close> \<open>os.makedirs\<close> is the real one at the empty
  path, which raises \<open>FileNotFoundError\<close>. In \<open>entorno_sin_ruta\<close> the pipeline returns a
  list that holds only its parameters. In \<open>entorno_reintento\<close> the constructor raises until
  it has been tried once.
\<close>

definition resultado_ejemplo :: pyval where
  "resultado_ejemplo =
     PList [PStr ''./salidas_espanol/output.wav'',
            PDict [(PStr ''actual_seeds'', PList [PInt 42])]]"

definition entorno_ok :: entorno where
  "entorno_ok =
     \<lparr> ACEStepPipeline = (\<lambda>tr a. Inr 7),
       os_makedirs = (\<lambda>tr d. None),
       invocar = (\<lambda>tr h a. Inr resultado_ejemplo) \<rparr>"

definition entorno_directorio_vacio :: entorno where
  "entorno_directorio_vacio =
     entorno_ok\<lparr>os_makedirs :=
       (\<lambda>tr d. if d = []
                then Some (Excepcion (''[Errno 2] No such file or directory: '' @
                             [CHR 0x27, CHR 0x27]))
                else None)\<rparr>"

definition entorno_sin_ruta :: entorno where
  "entorno_sin_ruta = entorno_ok\<lparr>invocar := (\<lambda>tr h a. Inr (PList [PDict []]))\<rparr>"

definition entorno_reintento :: entorno where
  "entorno_reintento =
     entorno_ok\<lparr>ACEStepPipeline :=
       (\<lambda>tr a. if EvCrearPipeline a \<in> set tr then Inr 7
                else Inl (Excepcion ''CUDA out of memory''))\<rparr>"

definition config_personalizada :: ConfiguracionGeneracion where
  "config_personalizada =
     config_por_defecto\<lparr>formato_salida := ''mp3'', semillas := Some [1, 2],
       directorio_salida := ''/tmp/otra'', ruta_checkpoint := Some ''/modelos'',
       usar_bf16 := False\<rparr>"

text \<open>
  A sequence of calls of \<open>generar_cancion\<close> on one generator, by a caller that goes on after
  whatever a call gives; \<open>reusa h\<close> holds of an event that constructs no pipeline and calls
  no handle but \<open>h\<close>.
\<close>

record peticion =
  p_genero :: string
  p_letra :: "string option"
  p_duracion :: pyfloat
  p_semilla :: "int option"
  p_nombre :: "string option"

fun atender ::
  "entorno \<Rightarrow> GeneradorMusicaEspanol \<Rightarrow> evento list \<Rightarrow> peticion list
     \<Rightarrow> GeneradorMusicaEspanol \<times> evento list" where
  "atender env self tr [] = (self, tr)"
| "atender env self tr (p # ps) =
     (case generar_cancion env self tr (p_genero p) (p_letra p) (p_duracion p) (p_semilla p)
             (p_nombre p) of
        (r, self1, tr1) \<Rightarrow> atender env self1 tr1 ps)"

fun reusa :: "nat \<Rightarrow> evento \<Rightarrow> bool" where
  "reusa h (EvCrearPipeline a) = False"
| "reusa h (EvLlamada h' a) = (h' = h)"
| "reusa h (EvMakedirs d) = True"
| "reusa h (EvPrint s) = True"

section \<open>Properties of the string functions\<close>

lemma py_in_sublist: "py_in sub s = sublist sub s"
  by (induction s) (auto simp: sublist_Cons_right)

lemma dropWhile_snoc_keep: "\<not> p x \<Longrightarrow> dropWhile p (ys @ [x]) = dropWhile p ys @ [x]"
  by (induction ys) auto

lemma dropWhile_Nil_all: "dropWhile p xs = [] \<longleftrightarrow> (\<forall>x\<in>set xs. p x)"
  by (induction xs) auto

text \<open>Stripping leaves nothing exactly when every character is whitespace.\<close>

lemma py_strip_Nil_iff: "py_strip s = [] \<longleftrightarrow> (\<forall>c\<in>set s. py_isspace c)"
proof (cases "dropWhile py_isspace s")
  case Nil
  have "py_strip s = []"
    unfolding py_strip_def Nil by simp
  moreover have "\<forall>c\<in>set s. py_isspace c"
    using Nil dropWhile_Nil_all [of py_isspace s] by blast
  ultimately show ?thesis by simp
next
  case (Cons x xs)
  then have nx: "\<not> py_isspace x"
    using hd_dropWhile [of py_isspace s] by simp
  from Cons have "py_strip s \<noteq> []"
    using nx by (simp add: py_strip_def dropWhile_snoc_keep)
  moreover from Cons have "\<not> (\<forall>c\<in>set s. py_isspace c)"
    using dropWhile_Nil_all [of py_isspace s] by simp
  ultimately show ?thesis by simp
qed

text \<open>The lines of a text are its pieces between newlines.\<close>

lemma py_split_nl_join: "py_join [NL] (py_split_nl s) = s"
proof (induction s)
  case Nil
  show ?case by simp
next
  case (Cons c cs)
  then show ?case
    by (cases "py_split_nl cs"; cases "tl (py_split_nl cs)") auto
qed

lemma py_split_nl_no_NL: "l \<in> set (py_split_nl s) \<Longrightarrow> NL \<notin> set l"
  by (induction s arbitrary: l) (auto split: if_splits list.splits)

lemma sublist_prepend: "sublist k ys \<Longrightarrow> sublist k (ps @ ys)"
  by (simp add: sublist_append)

lemma sublist_extend: "sublist k ys \<Longrightarrow> sublist k (ys @ ss)"
  by (simp add: sublist_append)

lemma sublist_py_join: "k \<in> set ks \<Longrightarrow> sublist k (py_join sep ks)"
proof (induction sep ks rule: py_join.induct)
  case (1 sep)
  then show ?case by simp
next
  case (2 sep p)
  then show ?case by simp
next
  case (3 sep p q ps)
  show ?case
  proof (cases "k = p")
    case True
    then show ?thesis by simp
  next
    case False
    with 3 have "sublist k (py_join sep (q # ps))" by simp
    then have "sublist k (p @ sep @ py_join sep (q # ps))"
      by (intro sublist_prepend)
    then show ?thesis by simp
  qed
qed

section \<open>The lyric check\<close>

text \<open>
  C5, as the code has it. \<open>validar_letra\<close> answers, in this order: the emptiness message
  when the text is empty or all whitespace; the section message when none of the five markers
  is a substring of the lower-cased text; the line-count message when fewer than four lines
  remain after dropping every line that is empty or all whitespace and every line whose
  stripped form starts with an opening bracket; and otherwise success with the empty message.
\<close>

theorem validar_letra_ramas:
  "validar_letra t =
     (if (\<forall>c\<in>set t. py_isspace c) then (False, msg_letra_vacia)
      else if \<not> (\<exists>m\<in>set secciones_validas. sublist m (py_lower t))
      then (False, msg_sin_seccion)
      else if length (filter (\<lambda>l. \<not> ((\<forall>c\<in>set l. py_isspace c) \<or>
                                       py_startswith (py_strip l) ''[''))
                        (py_split_nl t)) < 4
      then (False, msg_pocas_lineas)
      else (True, []))"
proof -
  have vacia: "(t = [] \<or> py_strip t = []) \<longleftrightarrow> (\<forall>c\<in>set t. py_isspace c)"
    by (auto simp: py_strip_Nil_iff)
  have seccion:
    "list_ex (\<lambda>seccion. py_in seccion (py_lower t)) secciones_validas \<longleftrightarrow>
       (\<exists>m\<in>set secciones_validas. sublist m (py_lower t))"
    by (simp add: list_ex_iff py_in_sublist)
  have lineas:
    "(\<lambda>l. py_strip l \<noteq> [] \<and> \<not> py_startswith (py_strip l) ''['') =
       (\<lambda>l. \<not> ((\<forall>c\<in>set l. py_isspace c) \<or> py_startswith (py_strip l) ''[''))"
    by (auto simp: py_strip_Nil_iff)
  show ?thesis
    unfolding validar_letra_def Let_def vacia seccion lineas by simp
qed

theorem validar_letra_ramas_witness:
  "validar_letra letra_cuatro_lineas = (True, [])"
  using validar_letra_ramas [of letra_cuatro_lineas]
  by (simp add: letra_cuatro_lineas_def validar_letra_def py_strip_def py_isspace_def NL_def
      secciones_validas_def py_lower_def py_lower_char_def py_startswith_def)

text \<open>
  A text whose last line is a single space has three lines of content and a line that is not
  empty: the code rejects it, the check as worded accepts it.
\<close>

theorem validar_letra_literal_counterexample:
  "validar_letra letra_linea_en_blanco = (False, msg_pocas_lineas) \<and>
   validar_letra_literal letra_linea_en_blanco = (True, [])"
  by (simp add: letra_linea_en_blanco_def validar_letra_def validar_letra_literal_def
      py_strip_def py_isspace_def NL_def
      secciones_validas_def py_lower_def py_lower_char_def py_startswith_def)

lemma plantilla_amor_valida: "validar_letra plantilla_amor = (True, [])"
  by code_simp

section \<open>The lyric composer\<close>

lemma bucle_versos_pos:
  "0 < i \<Longrightarrow> bucle_versos i vs coro partes = partes @ map (bloque ''[verse]'') vs"
  by (induction vs arbitrary: i partes) (simp_all add: bloque_def)

lemma bucle_versos_0:
  "bucle_versos 0 (v # vs) coro partes =
     partes @ [bloque ''[verse]'' v, bloque ''[chorus]'' coro] @ map (bloque ''[verse]'') vs"
  by (simp add: bucle_versos_pos) (simp add: bloque_def)

text \<open>
  C8, as the code has it. For a non-empty verse list the composed lyric is the blocks of
  \<open>bloques_esperados\<close> joined by a blank line: a verse block per verse in order, the chorus
  block right after the first verse only, and, for a bridge that is not the empty string,
  the bridge block after all verses and then the chorus block once more. So one verse
  without a bridge gives the verse block and the one chorus block, and one verse with such a
  bridge gives the verse block, a chorus block, the bridge block and a second chorus block.
\<close>

theorem crear_letra_personalizada_bloques:
  "versos \<noteq> [] \<Longrightarrow>
     crear_letra_personalizada versos coro bridge =
       py_join [NL, NL] (bloques_esperados versos coro bridge) \<and>
     (\<forall>v. versos = [v] \<and> bridge = None \<longrightarrow>
        crear_letra_personalizada versos coro bridge =
          bloque ''[verse]'' v @ [NL, NL] @ bloque ''[chorus]'' coro) \<and>
     (\<forall>v b. versos = [v] \<and> bridge = Some b \<and> b \<noteq> [] \<longrightarrow>
        crear_letra_personalizada versos coro bridge =
          bloque ''[verse]'' v @ [NL, NL] @ bloque ''[chorus]'' coro @ [NL, NL] @
          bloque ''[bridge]'' b @ [NL, NL] @ bloque ''[chorus]'' coro)"
proof -
  assume "versos \<noteq> []"
  then obtain v vs where vs: "versos = v # vs"
    by (cases versos) auto
  have general: "crear_letra_personalizada versos coro bridge =
      py_join [NL, NL] (bloques_esperados versos coro bridge)"
    unfolding crear_letra_personalizada_def bloques_esperados_def vs Let_def bucle_versos_0
    by (cases bridge) (simp_all add: bloque_def)
  show ?thesis
    unfolding general by (auto simp add: bloques_esperados_def)
qed

text \<open>
  The verse \<open>v1\<close> and the chorus \<open>c1\<close>: without a bridge the lyric has the one chorus
  block; with the bridge \<open>b1\<close> it has a chorus block, the bridge block and the second chorus
  block, in this order.
\<close>

theorem crear_letra_personalizada_bloques_witness:
  "[''v1''] \<noteq> [] \<and>
   crear_letra_personalizada [''v1''] ''c1'' None =
     ''[verse]'' @ [NL] @ ''v1'' @ [NL, NL] @ ''[chorus]'' @ [NL] @ ''c1'' \<and>
   crear_letra_personalizada [''v1''] ''c1'' (Some ''b1'') =
     ''[verse]'' @ [NL] @ ''v1'' @ [NL, NL] @ ''[chorus]'' @ [NL] @ ''c1'' @ [NL, NL] @
     ''[bridge]'' @ [NL] @ ''b1'' @ [NL, NL] @ ''[chorus]'' @ [NL] @ ''c1''"
  using crear_letra_personalizada_bloques [of "[''v1'']" "''c1''" None]
    crear_letra_personalizada_bloques [of "[''v1'']" "''c1''" "Some ''b1''"]
  by (simp add: bloques_esperados_def bloque_def)

text \<open>A bridge that is the empty string is supplied, and no bridge block is emitted.\<close>

theorem crear_letra_bridge_vacio_counterexample:
  "crear_letra_personalizada [''v1''] ''c1'' (Some []) =
     ''[verse]'' @ [NL] @ ''v1'' @ [NL, NL] @ ''[chorus]'' @ [NL] @ ''c1'' \<and>
   \<not> py_in ''[bridge]'' (crear_letra_personalizada [''v1''] ''c1'' (Some []))"
  by (simp add: crear_letra_personalizada_def NL_def)

section \<open>The default configuration\<close>

text \<open>
  C4, as the code has it. The configuration built with no argument has duration 60, format
  wav, 60 inference steps, guidance scale 15, scheduler euler, CFG type apg, omega scale 10,
  guidance interval 0.5, decay 0, minimum guidance scale 3, the three ERG flags true, no
  seeds, output directory ./salidas_espanol, no checkpoint path, device 0, the precision
  flag true, CPU offload false and compiled execution false.
\<close>

theorem config_por_defecto_valores:
  "duracion_segundos config_por_defecto = 60 \<and>
   formato_salida config_por_defecto = ''wav'' \<and>
   pasos_inferencia config_por_defecto = 60 \<and>
   escala_guia config_por_defecto = 15 \<and>
   tipo_scheduler config_por_defecto = ''euler'' \<and>
   tipo_cfg config_por_defecto = ''apg'' \<and>
   escala_omega config_por_defecto = 10 \<and>
   intervalo_guia config_por_defecto = 1 / 2 \<and>
   decaimiento_guia config_por_defecto = 0 \<and>
   escala_guia_minima config_por_defecto = 3 \<and>
   usar_erg_tag config_por_defecto \<and>
   usar_erg_letra config_por_defecto \<and>
   usar_erg_difusion config_por_defecto \<and>
   semillas config_por_defecto = None \<and>
   directorio_salida config_por_defecto = ''./salidas_espanol'' \<and>
   ruta_checkpoint config_por_defecto = None \<and>
   id_dispositivo config_por_defecto = 0 \<and>
   usar_bf16 config_por_defecto \<and>
   \<not> usar_cpu_offload config_por_defecto \<and>
   \<not> usar_torch_compile config_por_defecto"
  by (simp add: config_por_defecto_def)

text \<open>The default output directory is not the path \<open>./output_spanish\<close>.\<close>

theorem config_directorio_counterexample:
  "directorio_salida config_por_defecto \<noteq> ''./output_spanish''"
  by (simp add: config_por_defecto_def)

section \<open>The generator, case by case\<close>

lemma exitoso_resultado_fallido: "\<not> exitoso (resultado_fallido m)"
  by (simp add: resultado_fallido_def)

lemma ruta_resultado_fallido: "ruta_audio (resultado_fallido m) = None"
  by (simp add: resultado_fallido_def)

lemma mensaje_resultado_fallido: "mensaje (resultado_fallido m) = m"
  by (simp add: resultado_fallido_def)

lemma resultado_fallido_inj: "resultado_fallido a = resultado_fallido b \<longleftrightarrow> a = b"
  by (simp add: resultado_fallido_def)

lemma extraer_resultado_lista:
  "extraer_resultado (PList (x # xs)) =
     (let params = (case last (x # xs) of PDict d \<Rightarrow> d | _ \<Rightarrow> [])
      in \<lparr> exitoso = True,
           ruta_audio = (case x of PStr s \<Rightarrow> Some s | _ \<Rightarrow> None),
           mensaje = msg_exito, parametros = params,
           tiempos = dict_get params ''timecosts'' (PDict []),
           semillas_usadas = dict_get params ''actual_seeds'' (PList []) \<rparr>)"
  by (simp add: extraer_resultado_def Let_def)

lemma extraer_resultado_otro:
  "(\<nexists>x xs. v = PList (x # xs)) \<Longrightarrow>
     extraer_resultado v = resultado_fallido msg_resultado_invalido"
proof (cases v)
  case (PList l)
  assume "\<nexists>x xs. v = PList (x # xs)"
  with PList have "l = []" by (cases l) auto
  with PList show ?thesis by (simp add: extraer_resultado_def)
qed (simp_all add: extraer_resultado_def)

lemma extraer_resultado_exitoso:
  "exitoso (extraer_resultado v) \<longleftrightarrow> (\<exists>x xs. v = PList (x # xs))"
proof (cases "\<exists>x xs. v = PList (x # xs)")
  case True
  then show ?thesis by (auto simp add: extraer_resultado_lista Let_def)
next
  case False
  then show ?thesis
    using extraer_resultado_otro [of v] by (simp add: exitoso_resultado_fallido)
qed

lemma mensaje_extraer_resultado:
  "mensaje (extraer_resultado v) = msg_exito \<or>
   mensaje (extraer_resultado v) = msg_resultado_invalido"
proof (cases "\<exists>x xs. v = PList (x # xs)")
  case True
  then show ?thesis by (auto simp add: extraer_resultado_lista Let_def)
next
  case False
  then show ?thesis
    using extraer_resultado_otro [of v] by (simp add: mensaje_resultado_fallido)
qed

lemma generar_cancion_genero_invalido:
  "genero \<notin> set (map fst GENEROS_ESPANOL) \<Longrightarrow>
     generar_cancion env self tr genero letra duracion semilla nombre =
       (Inr (resultado_fallido (msg_genero_invalido genero)), self, tr)"
  by (simp add: generar_cancion_def)

lemma generar_cancion_letra_invalida:
  "genero \<in> set (map fst GENEROS_ESPANOL) \<Longrightarrow>
   \<not> fst (validar_letra (case letra of None \<Rightarrow> plantilla_amor | Some l \<Rightarrow> l)) \<Longrightarrow>
     generar_cancion env self tr genero letra duracion semilla nombre =
       (Inr (resultado_fallido (''Error en la letra: '' @
          snd (validar_letra (case letra of None \<Rightarrow> plantilla_amor | Some l \<Rightarrow> l)))), self, tr)"
  by (simp add: generar_cancion_def Let_def split_beta)

lemma generar_cancion_duracion_invalida:
  "genero \<in> set (map fst GENEROS_ESPANOL) \<Longrightarrow>
   fst (validar_letra (case letra of None \<Rightarrow> plantilla_amor | Some l \<Rightarrow> l)) \<Longrightarrow>
   menor_que duracion 10 \<or> mayor_que duracion 240 \<Longrightarrow>
     generar_cancion env self tr genero letra duracion semilla nombre =
       (Inr (resultado_fallido msg_duracion), self, tr)"
  by (auto simp add: generar_cancion_def Let_def split_beta)

lemma generar_cancion_sin_pipeline:
  "entrada_valida genero letra duracion \<Longrightarrow>
   inicializar_pipeline env self tr = (False, self1, tr1) \<Longrightarrow>
     generar_cancion env self tr genero letra duracion semilla nombre =
       (Inr (resultado_fallido msg_no_inicializado), self1, tr1)"
  by (simp add: generar_cancion_def entrada_valida_def Let_def split_beta)

lemma generar_cancion_makedirs_falla:
  "entrada_valida genero letra duracion \<Longrightarrow>
   inicializar_pipeline env self tr = (True, self1, tr1) \<Longrightarrow>
   os_makedirs env tr1 (directorio_salida (config self1)) = Some e \<Longrightarrow>
     generar_cancion env self tr genero letra duracion semilla nombre =
       (Inl e, self1, tr1 @ [EvMakedirs (directorio_salida (config self1))])"
  by (simp add: generar_cancion_def entrada_valida_def Let_def split_beta)

lemma generar_cancion_llega_al_try:
  "entrada_valida genero letra duracion \<Longrightarrow>
   inicializar_pipeline env self tr = (True, self1, tr1) \<Longrightarrow>
   os_makedirs env tr1 (directorio_salida (config self1)) = None \<Longrightarrow>
   bloque_try env self1 (tr1 @ [EvMakedirs (directorio_salida (config self1))]) genero
     (case letra of None \<Rightarrow> plantilla_amor | Some l \<Rightarrow> l) duracion semilla
     (ruta_de_salida (config self1) nombre) = (r, tr2) \<Longrightarrow>
     generar_cancion env self tr genero letra duracion semilla nombre = (Inr r, self1, tr2)"
  by (simp add: generar_cancion_def entrada_valida_def Let_def split_beta)

lemma inicializar_pipeline_listo:
  "inicializado self \<Longrightarrow> inicializar_pipeline env self tr = (True, self, tr)"
  by (simp add: inicializar_pipeline_def)

lemma inicializar_pipeline_falla:
  "\<not> inicializado self \<Longrightarrow>
   ACEStepPipeline env tr (args_de_config (config self)) = Inl (Excepcion e) \<Longrightarrow>
     inicializar_pipeline env self tr =
       (False, self,
        tr @ [EvCrearPipeline (args_de_config (config self)),
              EvPrint (''Error al inicializar el pipeline: '' @ e)])"
  by (simp add: inicializar_pipeline_def Let_def)

lemma inicializar_pipeline_exito:
  "\<not> inicializado self \<Longrightarrow>
   ACEStepPipeline env tr (args_de_config (config self)) = Inr h \<Longrightarrow>
     inicializar_pipeline env self tr =
       (True, self\<lparr>pipeline := Some h, inicializado := True\<rparr>,
        tr @ [EvCrearPipeline (args_de_config (config self))])"
  by (simp add: inicializar_pipeline_def Let_def)

lemma inicializar_pipeline_casos:
  obtains
    (listo) "inicializado self" "inicializar_pipeline env self tr = (True, self, tr)"
  | (falla) e where "\<not> inicializado self"
      "ACEStepPipeline env tr (args_de_config (config self)) = Inl (Excepcion e)"
      "inicializar_pipeline env self tr =
         (False, self,
          tr @ [EvCrearPipeline (args_de_config (config self)),
                EvPrint (''Error al inicializar el pipeline: '' @ e)])"
  | (exito) h where "\<not> inicializado self"
      "ACEStepPipeline env tr (args_de_config (config self)) = Inr h"
      "inicializar_pipeline env self tr =
         (True, self\<lparr>pipeline := Some h, inicializado := True\<rparr>,
          tr @ [EvCrearPipeline (args_de_config (config self))])"
proof (cases "inicializado self")
  case True
  then show ?thesis using listo inicializar_pipeline_listo by blast
next
  case False
  show ?thesis
  proof (cases "ACEStepPipeline env tr (args_de_config (config self))")
    case (Inl ex)
    then obtain e where
      "ACEStepPipeline env tr (args_de_config (config self)) = Inl (Excepcion e)"
      by (cases ex) auto
    then show ?thesis
      using falla False inicializar_pipeline_falla [OF False] by blast
  next
    case (Inr h)
    then show ?thesis
      using exito False inicializar_pipeline_exito [OF False] by blast
  qed
qed

lemma bloque_try_casos:
  obtains
    (sin_prompt) "map_of GENEROS_ESPANOL genero = None"
      "bloque_try env self tr genero letra duracion semilla ruta =
         (resultado_fallido (msg_error_generacion ([CHR 0x27] @ genero @ [CHR 0x27])), tr)"
  | (sin_handle) "pipeline self = None"
      "bloque_try env self tr genero letra duracion semilla ruta =
         (resultado_fallido
            (msg_error_generacion
               ([CHR 0x27] @ ''NoneType'' @ [CHR 0x27] @ '' object is not callable'')), tr)"
  | (excepcion) h p e where "pipeline self = Some h"
      "map_of GENEROS_ESPANOL genero = Some p"
      "invocar env tr h
         (argumentos_llamada (config self) duracion p letra
            (resolver_semillas semilla (config self)) ruta) = Inl (Excepcion e)"
      "bloque_try env self tr genero letra duracion semilla ruta =
         (resultado_fallido (msg_error_generacion e),
          tr @ [EvLlamada h (argumentos_llamada (config self) duracion p letra
                  (resolver_semillas semilla (config self)) ruta)])"
  | (retorno) h p v where "pipeline self = Some h"
      "map_of GENEROS_ESPANOL genero = Some p"
      "invocar env tr h
         (argumentos_llamada (config self) duracion p letra
            (resolver_semillas semilla (config self)) ruta) = Inr v"
      "bloque_try env self tr genero letra duracion semilla ruta =
         (extraer_resultado v,
          tr @ [EvLlamada h (argumentos_llamada (config self) duracion p letra
                  (resolver_semillas semilla (config self)) ruta)])"
proof (cases "map_of GENEROS_ESPANOL genero")
  case None
  then show ?thesis
    using sin_prompt by (simp add: bloque_try_def)
next
  case (Some p)
  note prompt = this
  show ?thesis
  proof (cases "pipeline self")
    case None
    then show ?thesis
      using sin_handle prompt by (simp add: bloque_try_def Let_def)
  next
    case (Some h)
    note handle = this
    let ?a = "argumentos_llamada (config self) duracion p letra
                (resolver_semillas semilla (config self)) ruta"
    show ?thesis
    proof (cases "invocar env tr h ?a")
      case (Inl ex)
      then obtain e where "invocar env tr h ?a = Inl (Excepcion e)"
        by (cases ex) auto
      then show ?thesis
        using excepcion [of h p e] prompt handle by (simp add: bloque_try_def Let_def)
    next
      case (Inr v)
      then show ?thesis
        using retorno [of h p v] prompt handle by (simp add: bloque_try_def Let_def)
    qed
  qed
qed

lemma bloque_try_retorno:
  assumes "map_of GENEROS_ESPANOL genero = Some p" and "pipeline self = Some h"
    and "invocar env tr h (argumentos_llamada (config self) duracion p letra
           (resolver_semillas semilla (config self)) ruta) = Inr v"
  shows "bloque_try env self tr genero letra duracion semilla ruta =
           (extraer_resultado v,
            tr @ [EvLlamada h (argumentos_llamada (config self) duracion p letra
                    (resolver_semillas semilla (config self)) ruta)])"
  using assms by (simp add: bloque_try_def Let_def)

lemma mensaje_error_no_vacio: "msg_error_generacion e \<noteq> []"
  by (simp add: msg_error_generacion_def)

lemma bloque_try_fallo:
  assumes "bloque_try env self tr genero letra duracion semilla ruta = (r, tr')"
    and "\<not> exitoso r"
  shows "ruta_audio r = None \<and> mensaje r \<noteq> []"
proof (cases rule: bloque_try_casos [of genero env self tr letra duracion semilla ruta])
  case sin_prompt
  with assms show ?thesis
    by (auto simp add: ruta_resultado_fallido mensaje_resultado_fallido mensaje_error_no_vacio)
next
  case sin_handle
  with assms show ?thesis
    by (auto simp add: ruta_resultado_fallido mensaje_resultado_fallido mensaje_error_no_vacio)
next
  case (excepcion h p e)
  with assms show ?thesis
    by (auto simp add: ruta_resultado_fallido mensaje_resultado_fallido mensaje_error_no_vacio)
next
  case (retorno h p v)
  with assms have r: "r = extraer_resultado v" by simp
  with assms have "\<not> (\<exists>x xs. v = PList (x # xs))"
    by (simp add: extraer_resultado_exitoso)
  then have "r = resultado_fallido msg_resultado_invalido"
    using r extraer_resultado_otro [of v] by simp
  then show ?thesis
    by (simp add: ruta_resultado_fallido mensaje_resultado_fallido msg_resultado_invalido_def)
qed

lemma bloque_try_exito:
  assumes "bloque_try env self tr genero letra duracion semilla ruta = (r, tr')"
    and "exitoso r"
  shows "\<exists>h a x xs. pipeline self = Some h \<and> tr' = tr @ [EvLlamada h a] \<and>
           invocar env tr h a = Inr (PList (x # xs)) \<and>
           r = extraer_resultado (PList (x # xs))"
proof (cases rule: bloque_try_casos [of genero env self tr letra duracion semilla ruta])
  case sin_prompt
  with assms show ?thesis by (auto simp add: exitoso_resultado_fallido)
next
  case sin_handle
  with assms show ?thesis by (auto simp add: exitoso_resultado_fallido)
next
  case (excepcion h p e)
  with assms show ?thesis by (auto simp add: exitoso_resultado_fallido)
next
  case (retorno h p v)
  with assms have r: "r = extraer_resultado v" and tr': "tr' = tr @ [EvLlamada h
      (argumentos_llamada (config self) duracion p letra
         (resolver_semillas semilla (config self)) ruta)]"
    by simp_all
  with assms obtain x xs where "v = PList (x # xs)"
    by (auto simp add: extraer_resultado_exitoso)
  with retorno r tr' show ?thesis by blast
qed

lemma bloque_try_traza:
  assumes "bloque_try env self tr genero letra duracion semilla ruta = (r, tr')"
  shows "tr' = tr \<or>
         (\<exists>h a. pipeline self = Some h \<and> tr' = tr @ [EvLlamada h a] \<and>
            manual_seeds a = resolver_semillas semilla (config self))"
  using assms
  by (cases rule: bloque_try_casos [of genero env self tr letra duracion semilla ruta])
    (auto simp add: argumentos_llamada_def)

lemma generar_cancion_casos:
  fixes env self tr genero letra duracion semilla nombre
  defines "gc \<equiv> generar_cancion env self tr genero letra duracion semilla nombre"
    and "letra1 \<equiv> (case letra of None \<Rightarrow> plantilla_amor | Some l \<Rightarrow> l)"
  obtains
    (genero_invalido) "genero \<notin> set (map fst GENEROS_ESPANOL)"
      "gc = (Inr (resultado_fallido (msg_genero_invalido genero)), self, tr)"
  | (letra_invalida) "genero \<in> set (map fst GENEROS_ESPANOL)"
      "\<not> fst (validar_letra letra1)"
      "gc = (Inr (resultado_fallido (''Error en la letra: '' @ snd (validar_letra letra1))),
             self, tr)"
  | (duracion_invalida) "genero \<in> set (map fst GENEROS_ESPANOL)"
      "fst (validar_letra letra1)"
      "menor_que duracion 10 \<or> mayor_que duracion 240"
      "gc = (Inr (resultado_fallido msg_duracion), self, tr)"
  | (sin_pipeline) self1 tr1 where "entrada_valida genero letra duracion"
      "inicializar_pipeline env self tr = (False, self1, tr1)"
      "gc = (Inr (resultado_fallido msg_no_inicializado), self1, tr1)"
  | (makedirs_falla) self1 tr1 e where "entrada_valida genero letra duracion"
      "inicializar_pipeline env self tr = (True, self1, tr1)"
      "os_makedirs env tr1 (directorio_salida (config self1)) = Some e"
      "gc = (Inl e, self1, tr1 @ [EvMakedirs (directorio_salida (config self1))])"
  | (llega_al_try) self1 tr1 r tr2 where "entrada_valida genero letra duracion"
      "inicializar_pipeline env self tr = (True, self1, tr1)"
      "os_makedirs env tr1 (directorio_salida (config self1)) = None"
      "bloque_try env self1 (tr1 @ [EvMakedirs (directorio_salida (config self1))]) genero
         letra1 duracion semilla (ruta_de_salida (config self1) nombre) = (r, tr2)"
      "gc = (Inr r, self1, tr2)"
proof (cases "genero \<in> set (map fst GENEROS_ESPANOL)")
  case False
  then show ?thesis
    using genero_invalido generar_cancion_genero_invalido unfolding gc_def by blast
next
  case True
  note genero = this
  show ?thesis
  proof (cases "fst (validar_letra letra1)")
    case False
    then show ?thesis
      using letra_invalida genero generar_cancion_letra_invalida [OF genero]
      unfolding gc_def letra1_def by blast
  next
    case True
    note valida = this
    show ?thesis
    proof (cases "menor_que duracion 10 \<or> mayor_que duracion 240")
      case True
      then show ?thesis
        using duracion_invalida genero valida
          generar_cancion_duracion_invalida [OF genero]
        unfolding gc_def letra1_def by blast
    next
      case False
      with genero valida have ev: "entrada_valida genero letra duracion"
        by (simp add: entrada_valida_def letra1_def)
      obtain ok self1 tr1 where ini: "inicializar_pipeline env self tr = (ok, self1, tr1)"
        by (cases "inicializar_pipeline env self tr") auto
      show ?thesis
      proof (cases ok)
        case False
        with ini have ini0: "inicializar_pipeline env self tr = (False, self1, tr1)"
          by simp
        show ?thesis
          using sin_pipeline [OF ev ini0] generar_cancion_sin_pipeline [OF ev ini0]
          unfolding gc_def by blast
      next
        case True
        with ini have ini': "inicializar_pipeline env self tr = (True, self1, tr1)"
          by simp
        show ?thesis
        proof (cases "os_makedirs env tr1 (directorio_salida (config self1))")
          case (Some e)
          then show ?thesis
            using makedirs_falla ev ini' generar_cancion_makedirs_falla [OF ev ini']
            unfolding gc_def by blast
        next
          case None
          obtain r tr2 where
            bt: "bloque_try env self1 (tr1 @ [EvMakedirs (directorio_salida (config self1))])
                   genero letra1 duracion semilla (ruta_de_salida (config self1) nombre)
                 = (r, tr2)"
            by (cases "bloque_try env self1
                  (tr1 @ [EvMakedirs (directorio_salida (config self1))])
                  genero letra1 duracion semilla (ruta_de_salida (config self1) nombre)") auto
          show ?thesis
            using llega_al_try [OF ev ini' None bt]
              generar_cancion_llega_al_try [OF ev ini' None bt [unfolded letra1_def]]
            unfolding gc_def by blast
        qed
      qed
    qed
  qed
qed

lemma entrada_valida_por_defecto: "entrada_valida ''pop_latino'' None (Finito 60)"
  by (simp add: entrada_valida_def plantilla_amor_valida GENEROS_ESPANOL_def)

lemma prompt_pop_latino:
  "map_of GENEROS_ESPANOL ''pop_latino'' =
     Some ''pop, latin pop, tropical, catchy, upbeat, spanish''"
  by (simp add: GENEROS_ESPANOL_def)

lemma ejecucion_desde_cero:
  assumes ev: "entrada_valida genero letra duracion"
    and no: "\<not> inicializado self"
    and p: "map_of GENEROS_ESPANOL genero = Some p"
    and crea: "ACEStepPipeline env tr (args_de_config (config self)) = Inr h"
    and mk: "os_makedirs env (tr @ [EvCrearPipeline (args_de_config (config self))])
               (directorio_salida (config self)) = None"
    and inv: "invocar env
                (tr @ [EvCrearPipeline (args_de_config (config self)),
                       EvMakedirs (directorio_salida (config self))]) h
                (argumentos_llamada (config self) duracion p
                   (case letra of None \<Rightarrow> plantilla_amor | Some l \<Rightarrow> l)
                   (resolver_semillas semilla (config self))
                   (ruta_de_salida (config self) nombre)) = Inr v"
  shows "generar_cancion env self tr genero letra duracion semilla nombre =
           (Inr (extraer_resultado v), self\<lparr>pipeline := Some h, inicializado := True\<rparr>,
            tr @ [EvCrearPipeline (args_de_config (config self)),
                  EvMakedirs (directorio_salida (config self)),
                  EvLlamada h
                    (argumentos_llamada (config self) duracion p
                       (case letra of None \<Rightarrow> plantilla_amor | Some l \<Rightarrow> l)
                       (resolver_semillas semilla (config self))
                       (ruta_de_salida (config self) nombre))])"
proof -
  let ?s1 = "self\<lparr>pipeline := Some h, inicializado := True\<rparr>"
  let ?t1 = "tr @ [EvCrearPipeline (args_de_config (config self))]"
  have ini: "inicializar_pipeline env self tr = (True, ?s1, ?t1)"
    using no crea by (rule inicializar_pipeline_exito)
  have mk1: "os_makedirs env ?t1 (directorio_salida (config ?s1)) = None"
    using mk by simp
  have bt: "bloque_try env ?s1 (?t1 @ [EvMakedirs (directorio_salida (config ?s1))]) genero
      (case letra of None \<Rightarrow> plantilla_amor | Some l \<Rightarrow> l) duracion semilla
      (ruta_de_salida (config ?s1) nombre) =
      (extraer_resultado v,
       (?t1 @ [EvMakedirs (directorio_salida (config ?s1))]) @
       [EvLlamada h (argumentos_llamada (config ?s1) duracion p
           (case letra of None \<Rightarrow> plantilla_amor | Some l \<Rightarrow> l)
           (resolver_semillas semilla (config ?s1)) (ruta_de_salida (config ?s1) nombre))])"
    by (rule bloque_try_retorno) (use p inv in simp_all)
  show ?thesis
    using generar_cancion_llega_al_try [OF ev ini mk1 bt] by simp
qed

lemma ejecucion_por_defecto:
  assumes "ACEStepPipeline env = (\<lambda>tr a. Inr 7)" and "os_makedirs env = (\<lambda>tr d. None)"
    and "invocar env = (\<lambda>tr h a. Inr v)"
  shows "generar_cancion env (nuevo_generador None) [] ''pop_latino'' None (Finito 60) semilla
           None =
           (Inr (extraer_resultado v),
            (nuevo_generador None)\<lparr>pipeline := Some 7, inicializado := True\<rparr>,
            [EvCrearPipeline (args_de_config config_por_defecto),
             EvMakedirs ''./salidas_espanol'',
             EvLlamada 7
               (argumentos_llamada config_por_defecto (Finito 60)
                  ''pop, latin pop, tropical, catchy, upbeat, spanish'' plantilla_amor
                  (resolver_semillas semilla config_por_defecto) ''./salidas_espanol'')])"
proof -
  have "generar_cancion env (nuevo_generador None) [] ''pop_latino'' None (Finito 60) semilla
      None =
     (Inr (extraer_resultado v),
      (nuevo_generador None)\<lparr>pipeline := Some 7, inicializado := True\<rparr>,
      [] @ [EvCrearPipeline (args_de_config (config (nuevo_generador None))),
       EvMakedirs (directorio_salida (config (nuevo_generador None))),
       EvLlamada 7
         (argumentos_llamada (config (nuevo_generador None)) (Finito 60)
            ''pop, latin pop, tropical, catchy, upbeat, spanish''
            (case None of None \<Rightarrow> plantilla_amor | Some l \<Rightarrow> l)
            (resolver_semillas semilla (config (nuevo_generador None)))
            (ruta_de_salida (config (nuevo_generador None)) None))])"
    by (rule ejecucion_desde_cero [OF entrada_valida_por_defecto _ prompt_pop_latino])
      (simp_all add: nuevo_generador_def assms)
  then show ?thesis
    by (simp add: nuevo_generador_def ruta_de_salida_def config_por_defecto_def)
qed

section \<open>Failing fast on the genre\<close>

lemma longitud_GENEROS: "length (map fst GENEROS_ESPANOL) = 12"
  by (simp add: GENEROS_ESPANOL_def)

lemma msg_genero_invalido_partes:
  "msg_genero_invalido genero =
     (''G'' @ [CHR 0xE9] @ ''nero '' @ [CHR 0x27]) @ genero @
     ([CHR 0x27] @ '' no v'' @ [CHR 0xE1] @ ''lido. G'' @ [CHR 0xE9] @
      ''neros disponibles: '' @ py_join '', '' (map fst GENEROS_ESPANOL))"
  by (simp add: msg_genero_invalido_def)

lemma msg_genero_invalido_no_valido:
  "msg_genero_invalido genero =
     (''G'' @ [CHR 0xE9] @ ''nero '' @ [CHR 0x27] @ genero @ [CHR 0x27] @ '' '') @
     (''no v'' @ [CHR 0xE1] @ ''lido'') @
     (''. G'' @ [CHR 0xE9] @ ''neros disponibles: '' @ py_join '', '' (map fst GENEROS_ESPANOL))"
  by (simp add: msg_genero_invalido_def)

lemma msg_genero_invalido_lista:
  "msg_genero_invalido genero =
     (''G'' @ [CHR 0xE9] @ ''nero '' @ [CHR 0x27] @ genero @ [CHR 0x27] @ '' no v'' @
      [CHR 0xE1] @ ''lido. G'' @ [CHR 0xE9] @ ''neros disponibles: '') @
     py_join '', '' (map fst GENEROS_ESPANOL)"
  by (simp add: msg_genero_invalido_def)

text \<open>
  C7. For a genre that is not one of the twelve keys of the catalog, \<open>generar_cancion\<close>
  returns a failed result at once: whatever the lyric, the duration and the world, the
  generator and the trace are as before (no defaulting, no validation, no initialisation, no
  event), and the message holds the genre, the words for "not valid" and every one of the
  twelve keys.
\<close>

theorem genero_invalido_falla_de_inmediato:
  "genero \<notin> set (map fst GENEROS_ESPANOL) \<Longrightarrow>
     generar_cancion env self tr genero letra duracion semilla nombre =
       (Inr (resultado_fallido (msg_genero_invalido genero)), self, tr) \<and>
     \<not> exitoso (resultado_fallido (msg_genero_invalido genero)) \<and>
     mensaje (resultado_fallido (msg_genero_invalido genero)) = msg_genero_invalido genero \<and>
     sublist genero (msg_genero_invalido genero) \<and>
     sublist (''no v'' @ [CHR 0xE1] @ ''lido'') (msg_genero_invalido genero) \<and>
     length (map fst GENEROS_ESPANOL) = 12 \<and>
     (\<forall>k\<in>set (map fst GENEROS_ESPANOL). sublist k (msg_genero_invalido genero))"
proof -
  assume inv: "genero \<notin> set (map fst GENEROS_ESPANOL)"
  have a: "sublist genero (msg_genero_invalido genero)"
    unfolding msg_genero_invalido_partes by (rule sublist_appendI)
  have b: "sublist (''no v'' @ [CHR 0xE1] @ ''lido'') (msg_genero_invalido genero)"
    unfolding msg_genero_invalido_no_valido by (rule sublist_appendI)
  have c: "\<forall>k\<in>set (map fst GENEROS_ESPANOL). sublist k (msg_genero_invalido genero)"
    unfolding msg_genero_invalido_lista
    by (intro ballI sublist_prepend sublist_py_join)
  show ?thesis
    using generar_cancion_genero_invalido [OF inv] a b c longitud_GENEROS
    by (simp add: exitoso_resultado_fallido mensaje_resultado_fallido)
qed

theorem genero_invalido_falla_de_inmediato_witness:
  "''genero_inexistente'' \<notin> set (map fst GENEROS_ESPANOL) \<and>
   generar_cancion entorno_ok (nuevo_generador None) [] ''genero_inexistente''
     (Some plantilla_amor) (Finito 60) None None =
     (Inr (resultado_fallido (msg_genero_invalido ''genero_inexistente'')),
      nuevo_generador None, []) \<and>
   sublist ''folclore'' (msg_genero_invalido ''genero_inexistente'')"
proof -
  have inv: "''genero_inexistente'' \<notin> set (map fst GENEROS_ESPANOL)"
    by (simp add: GENEROS_ESPANOL_def)
  have "''folclore'' \<in> set (map fst GENEROS_ESPANOL)"
    by (simp add: GENEROS_ESPANOL_def)
  then show ?thesis
    using inv genero_invalido_falla_de_inmediato [OF inv, of entorno_ok "nuevo_generador None"
        "[]" "Some plantilla_amor" "Finito 60" None None]
    by blast
qed

section \<open>The duration check\<close>

lemma mensajes_distintos_de_duracion:
  "msg_error_generacion e \<noteq> msg_duracion" "msg_exito \<noteq> msg_duracion"
  "msg_resultado_invalido \<noteq> msg_duracion" "msg_no_inicializado \<noteq> msg_duracion"
  by (simp_all add: msg_error_generacion_def msg_duracion_def msg_exito_def
      msg_resultado_invalido_def msg_no_inicializado_def)

lemma bloque_try_no_duracion:
  assumes "bloque_try env self tr genero letra duracion semilla ruta = (r, tr')"
  shows "mensaje r \<noteq> msg_duracion"
proof (cases rule: bloque_try_casos [of genero env self tr letra duracion semilla ruta])
  case sin_prompt
  with assms show ?thesis
    by (auto simp add: mensaje_resultado_fallido mensajes_distintos_de_duracion)
next
  case sin_handle
  with assms show ?thesis
    by (auto simp add: mensaje_resultado_fallido mensajes_distintos_de_duracion)
next
  case (excepcion h p e)
  with assms show ?thesis
    by (auto simp add: mensaje_resultado_fallido mensajes_distintos_de_duracion)
next
  case (retorno h p v)
  with assms have "r = extraer_resultado v" by simp
  then show ?thesis
    using mensaje_extraer_resultado [of v] by (auto simp add: mensajes_distintos_de_duracion)
qed

text \<open>
  C6. With a genre of the catalog and a lyric that passes \<open>validar_letra\<close> (the default
  template when none is given), \<open>generar_cancion\<close> returns the duration failure exactly when
  the duration is below 10 or above 240, then without touching the generator or the world;
  the message names the duration, and on finite durations the comparisons are those of the
  numbers, so 10 and 240 are accepted.
\<close>

theorem duracion_fuera_de_rango:
  assumes genero: "genero \<in> set (map fst GENEROS_ESPANOL)"
    and valida: "fst (validar_letra (case letra of None \<Rightarrow> plantilla_amor | Some l \<Rightarrow> l))"
  shows "(fst (generar_cancion env self tr genero letra d semilla nombre) =
            Inr (resultado_fallido msg_duracion)
          \<longleftrightarrow> menor_que d 10 \<or> mayor_que d 240) \<and>
         (menor_que d 10 \<or> mayor_que d 240 \<longrightarrow>
            generar_cancion env self tr genero letra d semilla nombre =
              (Inr (resultado_fallido msg_duracion), self, tr)) \<and>
         \<not> exitoso (resultado_fallido msg_duracion) \<and>
         sublist (''duraci'' @ [CHR 0xF3] @ ''n'') (mensaje (resultado_fallido msg_duracion)) \<and>
         (\<forall>x. (menor_que (Finito x) 10 \<or> mayor_que (Finito x) 240) = (x < 10 \<or> 240 < x))"
proof -
  have fuera: "generar_cancion env self tr genero letra d semilla nombre =
                 (Inr (resultado_fallido msg_duracion), self, tr)"
    if "menor_que d 10 \<or> mayor_que d 240"
    using generar_cancion_duracion_invalida [OF genero valida that] .
  have dentro: "fst (generar_cancion env self tr genero letra d semilla nombre) \<noteq>
                  Inr (resultado_fallido msg_duracion)"
    if rango: "\<not> (menor_que d 10 \<or> mayor_que d 240)"
  proof (cases rule: generar_cancion_casos [of genero env self tr letra d semilla nombre])
    case genero_invalido
    with genero show ?thesis by simp
  next
    case letra_invalida
    with valida show ?thesis by simp
  next
    case duracion_invalida
    with rango show ?thesis by simp
  next
    case (sin_pipeline self1 tr1)
    then show ?thesis
      by (simp add: resultado_fallido_inj mensajes_distintos_de_duracion)
  next
    case (makedirs_falla self1 tr1 e)
    then show ?thesis by simp
  next
    case (llega_al_try self1 tr1 r tr2)
    from bloque_try_no_duracion [OF llega_al_try(4)]
    have "r \<noteq> resultado_fallido msg_duracion"
      by (auto simp add: mensaje_resultado_fallido)
    with llega_al_try(5) show ?thesis by simp
  qed
  have texto: "sublist (''duraci'' @ [CHR 0xF3] @ ''n'') (mensaje (resultado_fallido msg_duracion))"
  proof -
    have "msg_duracion = ''La '' @ (''duraci'' @ [CHR 0xF3] @ ''n'') @
            '' debe estar entre 10 y 240 segundos''"
      by (simp add: msg_duracion_def)
    then have "sublist (''duraci'' @ [CHR 0xF3] @ ''n'') msg_duracion"
      using sublist_appendI [of "''duraci'' @ [CHR 0xF3] @ ''n''" "''La ''"
          "'' debe estar entre 10 y 240 segundos''"] by simp
    then show ?thesis by (simp add: mensaje_resultado_fallido)
  qed
  show ?thesis
    using fuera dentro texto by (auto simp add: exitoso_resultado_fallido)
qed

theorem duracion_fuera_de_rango_witness:
  "''pop_latino'' \<in> set (map fst GENEROS_ESPANOL) \<and>
   fst (validar_letra plantilla_amor) \<and>
   generar_cancion entorno_ok (nuevo_generador None) [] ''pop_latino'' None (Finito 5) None None =
     (Inr (resultado_fallido msg_duracion), nuevo_generador None, []) \<and>
   generar_cancion entorno_ok (nuevo_generador None) [] ''pop_latino'' None (Finito 300) None
     None = (Inr (resultado_fallido msg_duracion), nuevo_generador None, []) \<and>
   fst (generar_cancion entorno_ok (nuevo_generador None) [] ''pop_latino'' None (Finito 10) None
     None) \<noteq> Inr (resultado_fallido msg_duracion) \<and>
   fst (generar_cancion entorno_ok (nuevo_generador None) [] ''pop_latino'' None (Finito 240)
     None None) \<noteq> Inr (resultado_fallido msg_duracion)"
proof -
  have g: "''pop_latino'' \<in> set (map fst GENEROS_ESPANOL)"
    by (simp add: GENEROS_ESPANOL_def)
  have v: "fst (validar_letra (case None of None \<Rightarrow> plantilla_amor | Some l \<Rightarrow> l))"
    by (simp add: plantilla_amor_valida)
  show ?thesis
    using g v
      duracion_fuera_de_rango [OF g v, of entorno_ok "nuevo_generador None" "[]" "Finito 5"
        None None]
      duracion_fuera_de_rango [OF g v, of entorno_ok "nuevo_generador None" "[]" "Finito 300"
        None None]
      duracion_fuera_de_rango [OF g v, of entorno_ok "nuevo_generador None" "[]" "Finito 10"
        None None]
      duracion_fuera_de_rango [OF g v, of entorno_ok "nuevo_generador None" "[]" "Finito 240"
        None None]
    by (simp add: plantilla_amor_valida)
qed

section \<open>The results\<close>

lemma mensajes_no_vacios:
  "msg_genero_invalido genero \<noteq> []" "msg_duracion \<noteq> []" "msg_no_inicializado \<noteq> []"
  "msg_exito \<noteq> []" "msg_resultado_invalido \<noteq> []"
  by (simp_all add: msg_genero_invalido_def msg_duracion_def msg_no_inicializado_def
      msg_exito_def msg_resultado_invalido_def)

text \<open>
  C2, as the code has it. A result of \<open>generar_cancion\<close> that has failed has no path and a
  message that is not empty. A result that has succeeded carries the success message, and the
  pipeline was called and returned a non-empty list; its path is the first element of that
  list when this is a string, and absent otherwise.
\<close>

theorem resultado_invariante:
  assumes gc: "generar_cancion env self tr genero letra duracion semilla nombre =
                 (Inr r, self', tr')"
  shows "(\<not> exitoso r \<longrightarrow> ruta_audio r = None \<and> mensaje r \<noteq> []) \<and>
         (exitoso r \<longrightarrow>
            mensaje r = msg_exito \<and>
            (\<exists>tr0 h a x xs. tr' = tr0 @ [EvLlamada h a] \<and>
               invocar env tr0 h a = Inr (PList (x # xs)) \<and>
               ruta_audio r = (case x of PStr s \<Rightarrow> Some s | _ \<Rightarrow> None)))"
proof (cases rule: generar_cancion_casos [of genero env self tr letra duracion semilla nombre])
  case genero_invalido
  with gc have "r = resultado_fallido (msg_genero_invalido genero)" by simp
  then show ?thesis
    by (simp add: exitoso_resultado_fallido ruta_resultado_fallido
        mensaje_resultado_fallido mensajes_no_vacios)
next
  case letra_invalida
  with gc have "\<exists>m. r = resultado_fallido (''Error en la letra: '' @ m)" by auto
  then show ?thesis
    by (auto simp add: exitoso_resultado_fallido ruta_resultado_fallido
        mensaje_resultado_fallido)
next
  case duracion_invalida
  with gc have "r = resultado_fallido msg_duracion" by simp
  then show ?thesis
    by (simp add: exitoso_resultado_fallido ruta_resultado_fallido
        mensaje_resultado_fallido mensajes_no_vacios)
next
  case (sin_pipeline self1 tr1)
  with gc have "r = resultado_fallido msg_no_inicializado" by simp
  then show ?thesis
    by (simp add: exitoso_resultado_fallido ruta_resultado_fallido
        mensaje_resultado_fallido mensajes_no_vacios)
next
  case (makedirs_falla self1 tr1 e)
  with gc show ?thesis by simp
next
  case (llega_al_try self1 tr1 r1 tr2)
  with gc have r: "r1 = r" and t: "tr2 = tr'" by simp_all
  note bt = llega_al_try(4) [unfolded r t]
  show ?thesis
  proof (cases "exitoso r")
    case False
    then show ?thesis
      using bloque_try_fallo [OF bt] by simp
  next
    case True
    from bloque_try_exito [OF bt True] obtain h a x xs where
      tr': "tr' = (tr1 @ [EvMakedirs (directorio_salida (config self1))]) @ [EvLlamada h a]"
      and inv: "invocar env (tr1 @ [EvMakedirs (directorio_salida (config self1))]) h a =
                  Inr (PList (x # xs))"
      and rr: "r = extraer_resultado (PList (x # xs))"
      by blast
    from rr have "mensaje r = msg_exito"
      and "ruta_audio r = (case x of PStr s \<Rightarrow> Some s | _ \<Rightarrow> None)"
      by (simp_all add: extraer_resultado_lista Let_def)
    with True tr' inv show ?thesis by blast
  qed
qed

theorem resultado_invariante_witness:
  "\<exists>r self' tr'.
     generar_cancion entorno_ok (nuevo_generador None) [] ''pop_latino'' None
       (Finito 60) None None = (Inr r, self', tr') \<and>
     exitoso r \<and> mensaje r = msg_exito \<and> ruta_audio r = Some ''./salidas_espanol/output.wav''"
proof -
  have run: "generar_cancion entorno_ok (nuevo_generador None) [] ''pop_latino'' None
      (Finito 60) None None =
      (Inr (extraer_resultado resultado_ejemplo),
       (nuevo_generador None)\<lparr>pipeline := Some 7, inicializado := True\<rparr>,
       [EvCrearPipeline (args_de_config config_por_defecto),
        EvMakedirs ''./salidas_espanol'',
        EvLlamada 7
          (argumentos_llamada config_por_defecto (Finito 60)
             ''pop, latin pop, tropical, catchy, upbeat, spanish'' plantilla_amor
             (resolver_semillas None config_por_defecto) ''./salidas_espanol'')])"
    by (rule ejecucion_por_defecto) (simp_all add: entorno_ok_def)
  show ?thesis
    using resultado_invariante [OF run] run
    by (simp add: resultado_ejemplo_def extraer_resultado_lista Let_def)
qed

text \<open>
  The pipeline returns a list holding only a dictionary: the result succeeds and has no path.
\<close>

theorem exito_sin_ruta_counterexample:
  "(case fst (generar_cancion entorno_sin_ruta (nuevo_generador None) [] ''pop_latino'' None
               (Finito 60) None None) of
      Inl e \<Rightarrow> False
    | Inr r \<Rightarrow> exitoso r \<and> ruta_audio r = None)"
proof -
  have "generar_cancion entorno_sin_ruta (nuevo_generador None) [] ''pop_latino'' None
      (Finito 60) None None =
      (Inr (extraer_resultado (PList [PDict []])),
       (nuevo_generador None)\<lparr>pipeline := Some 7, inicializado := True\<rparr>,
       [EvCrearPipeline (args_de_config config_por_defecto),
        EvMakedirs ''./salidas_espanol'',
        EvLlamada 7
          (argumentos_llamada config_por_defecto (Finito 60)
             ''pop, latin pop, tropical, catchy, upbeat, spanish'' plantilla_amor
             (resolver_semillas None config_por_defecto) ''./salidas_espanol'')])"
    by (rule ejecucion_por_defecto) (simp_all add: entorno_sin_ruta_def entorno_ok_def)
  then show ?thesis
    by (simp add: extraer_resultado_lista Let_def)
qed

section \<open>Exceptions that leave the method\<close>

text \<open>
  Only the exception of \<open>os.makedirs\<close> leaves \<open>generar_cancion\<close>; in a world where
  it never raises, every call returns a result.
\<close>

lemma generar_cancion_escapa:
  assumes "fst (generar_cancion env self tr genero letra duracion semilla nombre) = Inl e"
  shows "\<exists>self1 tr1. entrada_valida genero letra duracion \<and>
           inicializar_pipeline env self tr = (True, self1, tr1) \<and>
           os_makedirs env tr1 (directorio_salida (config self1)) = Some e"
  using assms
  by (cases rule: generar_cancion_casos [of genero env self tr letra duracion semilla nombre])
    auto

lemma generar_cancion_sin_escape:
  assumes "\<And>tr1 d. os_makedirs env tr1 d = None"
  shows "\<exists>r. fst (generar_cancion env self tr genero letra duracion semilla nombre) = Inr r"
proof (cases "fst (generar_cancion env self tr genero letra duracion semilla nombre)")
  case (Inl e)
  then show ?thesis
    using generar_cancion_escapa [OF Inl] assms by auto
next
  case (Inr r)
  then show ?thesis by simp
qed

text \<open>
  C1. A generator is configured with the empty output directory, and the pipeline is
  available. \<open>os.makedirs\<close> raises on the empty path, outside the \<open>try\<close> block: the call
  of \<open>generar_cancion\<close> gives the exception itself and no result.
\<close>

theorem makedirs_excepcion_escapa:
  "generar_cancion entorno_directorio_vacio
     (nuevo_generador (Some (config_por_defecto\<lparr>directorio_salida := []\<rparr>))) []
     ''pop_latino'' None (Finito 60) None None =
     (Inl (Excepcion (''[Errno 2] No such file or directory: '' @ [CHR 0x27, CHR 0x27])),
      (nuevo_generador (Some (config_por_defecto\<lparr>directorio_salida := []\<rparr>)))
        \<lparr>pipeline := Some 7, inicializado := True\<rparr>,
      [EvCrearPipeline (args_de_config (config_por_defecto\<lparr>directorio_salida := []\<rparr>)),
       EvMakedirs []])"
proof -
  let ?g = "nuevo_generador (Some (config_por_defecto\<lparr>directorio_salida := []\<rparr>))"
  have ini: "inicializar_pipeline entorno_directorio_vacio ?g [] =
      (True, ?g\<lparr>pipeline := Some 7, inicializado := True\<rparr>,
       [] @ [EvCrearPipeline (args_de_config (config ?g))])"
    by (rule inicializar_pipeline_exito)
      (simp_all add: nuevo_generador_def entorno_directorio_vacio_def entorno_ok_def)
  have mk: "os_makedirs entorno_directorio_vacio
      ([] @ [EvCrearPipeline (args_de_config (config ?g))])
      (directorio_salida (config (?g\<lparr>pipeline := Some 7, inicializado := True\<rparr>))) =
      Some (Excepcion (''[Errno 2] No such file or directory: '' @ [CHR 0x27, CHR 0x27]))"
    by (simp add: nuevo_generador_def entorno_directorio_vacio_def)
  show ?thesis
    using generar_cancion_makedirs_falla [OF entrada_valida_por_defecto ini mk, of None None]
    by (simp add: nuevo_generador_def)
qed

section \<open>The seeds handed to the pipeline\<close>

text \<open>
  The seed list of every call is \<open>resolver_semillas\<close> of the seed passed (see
  \<open>bloque_try_traza\<close>): the one-element list for a seed that is not zero, the list of the
  configuration for no seed and for the seed 0.
\<close>

lemma resolver_semillas_casos:
  "resolver_semillas None c = semillas c"
  "resolver_semillas (Some 0) c = semillas c"
  "s \<noteq> 0 \<Longrightarrow> resolver_semillas (Some s) c = Some [s]"
  by (simp_all add: resolver_semillas_def)

text \<open>
  C3. The seed 0 is passed to a generator on the default configuration, which has no seed
  list: the pipeline is called with no seed list, not with the list of the seed 0.
\<close>

theorem semilla_cero_ignorada:
  "generar_cancion entorno_ok (nuevo_generador None) [] ''pop_latino'' None (Finito 60)
     (Some 0) None =
     (Inr (extraer_resultado resultado_ejemplo),
      (nuevo_generador None)\<lparr>pipeline := Some 7, inicializado := True\<rparr>,
      [EvCrearPipeline (args_de_config config_por_defecto),
       EvMakedirs ''./salidas_espanol'',
       EvLlamada 7
         (argumentos_llamada config_por_defecto (Finito 60)
            ''pop, latin pop, tropical, catchy, upbeat, spanish'' plantilla_amor None
            ''./salidas_espanol'')]) \<and>
   manual_seeds
     (argumentos_llamada config_por_defecto (Finito 60)
        ''pop, latin pop, tropical, catchy, upbeat, spanish'' plantilla_amor None
        ''./salidas_espanol'') \<noteq> Some [0]"
proof -
  have "generar_cancion entorno_ok (nuevo_generador None) [] ''pop_latino'' None (Finito 60)
     (Some 0) None =
     (Inr (extraer_resultado resultado_ejemplo),
      (nuevo_generador None)\<lparr>pipeline := Some 7, inicializado := True\<rparr>,
      [EvCrearPipeline (args_de_config config_por_defecto),
       EvMakedirs ''./salidas_espanol'',
       EvLlamada 7
         (argumentos_llamada config_por_defecto (Finito 60)
            ''pop, latin pop, tropical, catchy, upbeat, spanish'' plantilla_amor
            (resolver_semillas (Some 0) config_por_defecto) ''./salidas_espanol'')])"
    by (rule ejecucion_por_defecto) (simp_all add: entorno_ok_def)
  then show ?thesis
    by (simp add: resolver_semillas_def config_por_defecto_def argumentos_llamada_def)
qed

section \<open>Initialisation as a state machine\<close>

lemma generar_cancion_listo:
  assumes ini: "inicializado self" and h: "pipeline self = Some h"
  shows "\<exists>r evs. generar_cancion env self tr genero letra duracion semilla nombre =
           (r, self, tr @ evs) \<and> list_all (reusa h) evs"
proof -
  have listo: "inicializar_pipeline env self tr = (True, self, tr)"
    using ini by (rule inicializar_pipeline_listo)
  show ?thesis
  proof (cases rule: generar_cancion_casos [of genero env self tr letra duracion semilla nombre])
    case genero_invalido
    then show ?thesis by simp
  next
    case letra_invalida
    then show ?thesis by simp
  next
    case duracion_invalida
    then show ?thesis by simp
  next
    case (sin_pipeline self1 tr1)
    with listo show ?thesis by simp
  next
    case (makedirs_falla self1 tr1 e)
    with listo show ?thesis by simp
  next
    case (llega_al_try self1 tr1 r tr2)
    with listo have s: "self1 = self" and t: "tr1 = tr" by simp_all
    from bloque_try_traza [OF llega_al_try(4)] h
    have "\<exists>evs. tr2 = tr @ evs \<and> list_all (reusa h) evs"
      unfolding s t by auto
    with llega_al_try(5) s show ?thesis by auto
  qed
qed

lemma atender_listo:
  assumes "inicializado self" and "pipeline self = Some h"
  shows "\<exists>evs. atender env self tr ps = (self, tr @ evs) \<and> list_all (reusa h) evs"
proof (induction ps arbitrary: tr)
  case Nil
  show ?case by simp
next
  case (Cons p ps)
  from generar_cancion_listo [OF assms] obtain r evs1 where
    paso: "generar_cancion env self tr (p_genero p) (p_letra p) (p_duracion p) (p_semilla p)
             (p_nombre p) = (r, self, tr @ evs1)"
    and e1: "list_all (reusa h) evs1"
    by blast
  from Cons.IH [of "tr @ evs1"] obtain evs2 where
    resto: "atender env self (tr @ evs1) ps = (self, (tr @ evs1) @ evs2)"
    and e2: "list_all (reusa h) evs2"
    by blast
  have "atender env self tr (p # ps) = (self, tr @ (evs1 @ evs2))"
    using paso resto by simp
  moreover have "list_all (reusa h) (evs1 @ evs2)"
    using e1 e2 by simp
  ultimately show ?case by blast
qed

lemma generar_cancion_intenta_inicializar:
  assumes ev: "entrada_valida genero letra duracion" and no: "\<not> inicializado self"
  shows "\<exists>r self1 evs. generar_cancion env self tr genero letra duracion semilla nombre =
           (r, self1, tr @ EvCrearPipeline (args_de_config (config self)) # evs)"
proof (cases rule: generar_cancion_casos [of genero env self tr letra duracion semilla nombre])
  case genero_invalido
  with ev show ?thesis by (simp add: entrada_valida_def)
next
  case letra_invalida
  with ev show ?thesis by (simp add: entrada_valida_def)
next
  case duracion_invalida
  with ev show ?thesis by (simp add: entrada_valida_def)
next
  case (sin_pipeline self1 tr1)
  with no show ?thesis
    by (cases rule: inicializar_pipeline_casos [of self env tr]) auto
next
  case (makedirs_falla self1 tr1 e)
  with no show ?thesis
    by (cases rule: inicializar_pipeline_casos [of self env tr]) auto
next
  case (llega_al_try self1 tr1 r tr2)
  from bloque_try_traza [OF llega_al_try(4)]
  have "\<exists>evs. tr2 = tr1 @ EvMakedirs (directorio_salida (config self1)) # evs"
    by auto
  with llega_al_try(2,5) no show ?thesis
    by (cases rule: inicializar_pipeline_casos [of self env tr]) auto
qed

lemma generar_cancion_inicializa:
  assumes ev: "entrada_valida genero letra duracion" and no: "\<not> inicializado self"
    and ok: "ACEStepPipeline env tr (args_de_config (config self)) = Inr h"
  shows "\<exists>r evs. generar_cancion env self tr genero letra duracion semilla nombre =
           (r, self\<lparr>pipeline := Some h, inicializado := True\<rparr>,
            tr @ EvCrearPipeline (args_de_config (config self)) # evs) \<and>
           list_all (reusa h) evs"
proof -
  let ?s1 = "self\<lparr>pipeline := Some h, inicializado := True\<rparr>"
  let ?t1 = "tr @ [EvCrearPipeline (args_de_config (config self))]"
  have ini: "inicializar_pipeline env self tr = (True, ?s1, ?t1)"
    using no ok by (rule inicializar_pipeline_exito)
  show ?thesis
  proof (cases rule: generar_cancion_casos [of genero env self tr letra duracion semilla nombre])
    case genero_invalido
    with ev show ?thesis by (simp add: entrada_valida_def)
  next
    case letra_invalida
    with ev show ?thesis by (simp add: entrada_valida_def)
  next
    case duracion_invalida
    with ev show ?thesis by (simp add: entrada_valida_def)
  next
    case (sin_pipeline self1 tr1)
    with ini show ?thesis by simp
  next
    case (makedirs_falla self1 tr1 e)
    with ini show ?thesis by auto
  next
    case (llega_al_try self1 tr1 r tr2)
    with ini have s: "self1 = ?s1" and t: "tr1 = ?t1" by simp_all
    from bloque_try_traza [OF llega_al_try(4)]
    have "\<exists>evs. tr2 = ?t1 @ evs \<and> list_all (reusa h) evs"
      unfolding s t by auto
    with llega_al_try(5) s show ?thesis by auto
  qed
qed

text \<open>
  C9. On arguments that pass the three checks: when the generator is not initialised and
  the construction of the pipeline raises, \<open>generar_cancion\<close> returns the failed result
  whose message tells to check the GPU memory, the generator is as before (so its flag is still
  false) and every later valid call on it starts by constructing the pipeline again; when
  the construction returns a handle, the generator leaves the call with that handle and the
  flag true, the rest of the call constructs nothing and calls only that handle, and so does
  every later sequence of calls, which also leaves the generator as it is.
\<close>

theorem maquina_de_inicializacion:
  assumes ev: "entrada_valida genero letra duracion"
  shows
    "(\<not> inicializado self \<and>
      ACEStepPipeline env tr (args_de_config (config self)) = Inl (Excepcion e) \<longrightarrow>
        generar_cancion env self tr genero letra duracion semilla nombre =
          (Inr (resultado_fallido msg_no_inicializado), self,
           tr @ [EvCrearPipeline (args_de_config (config self)),
                 EvPrint (''Error al inicializar el pipeline: '' @ e)]) \<and>
        (\<forall>tr2 genero2 letra2 duracion2 semilla2 nombre2.
           entrada_valida genero2 letra2 duracion2 \<longrightarrow>
             (\<exists>r self1 evs.
                generar_cancion env self tr2 genero2 letra2 duracion2 semilla2 nombre2 =
                  (r, self1, tr2 @ EvCrearPipeline (args_de_config (config self)) # evs)))) \<and>
     (\<not> inicializado self \<and>
      ACEStepPipeline env tr (args_de_config (config self)) = Inr h \<longrightarrow>
        (\<exists>r evs.
           generar_cancion env self tr genero letra duracion semilla nombre =
             (r, self\<lparr>pipeline := Some h, inicializado := True\<rparr>,
              tr @ EvCrearPipeline (args_de_config (config self)) # evs) \<and>
           list_all (reusa h) evs) \<and>
        (\<forall>tr2 ps. \<exists>evs.
           atender env (self\<lparr>pipeline := Some h, inicializado := True\<rparr>) tr2 ps =
             (self\<lparr>pipeline := Some h, inicializado := True\<rparr>, tr2 @ evs) \<and>
           list_all (reusa h) evs)) \<and>
     sublist ''memoria GPU'' (mensaje (resultado_fallido msg_no_inicializado))"
proof -
  have falla: "generar_cancion env self tr genero letra duracion semilla nombre =
      (Inr (resultado_fallido msg_no_inicializado), self,
       tr @ [EvCrearPipeline (args_de_config (config self)),
             EvPrint (''Error al inicializar el pipeline: '' @ e)])"
    if "\<not> inicializado self"
      and "ACEStepPipeline env tr (args_de_config (config self)) = Inl (Excepcion e)"
    using generar_cancion_sin_pipeline [OF ev inicializar_pipeline_falla [OF that]] .
  have reintento: "\<exists>r self1 evs.
      generar_cancion env self tr2 genero2 letra2 duracion2 semilla2 nombre2 =
        (r, self1, tr2 @ EvCrearPipeline (args_de_config (config self)) # evs)"
    if "\<not> inicializado self" and "entrada_valida genero2 letra2 duracion2"
    for tr2 genero2 letra2 duracion2 semilla2 nombre2
    using generar_cancion_intenta_inicializar [OF that(2) that(1)] .
  have exito: "\<exists>r evs.
      generar_cancion env self tr genero letra duracion semilla nombre =
        (r, self\<lparr>pipeline := Some h, inicializado := True\<rparr>,
         tr @ EvCrearPipeline (args_de_config (config self)) # evs) \<and>
      list_all (reusa h) evs"
    if "\<not> inicializado self"
      and "ACEStepPipeline env tr (args_de_config (config self)) = Inr h"
    using generar_cancion_inicializa [OF ev that] .
  have despues: "\<exists>evs.
      atender env (self\<lparr>pipeline := Some h, inicializado := True\<rparr>) tr2 ps =
        (self\<lparr>pipeline := Some h, inicializado := True\<rparr>, tr2 @ evs) \<and>
      list_all (reusa h) evs" for tr2 ps
    by (rule atender_listo) simp_all
  have texto: "sublist ''memoria GPU'' (mensaje (resultado_fallido msg_no_inicializado))"
  proof -
    have "msg_no_inicializado =
        ''No se pudo inicializar el modelo. Verifica que tienes suficiente '' @
        ''memoria GPU'' @ ''.''"
      by (simp add: msg_no_inicializado_def)
    then show ?thesis
      using sublist_appendI [of "''memoria GPU''"
          "''No se pudo inicializar el modelo. Verifica que tienes suficiente ''" "''.''"]
      by (simp add: mensaje_resultado_fallido)
  qed
  show ?thesis
    using falla reintento exito despues texto by blast
qed

theorem maquina_de_inicializacion_witness:
  "entrada_valida ''pop_latino'' None (Finito 60) \<and>
   \<not> inicializado (nuevo_generador None) \<and>
   generar_cancion entorno_reintento (nuevo_generador None) [] ''pop_latino'' None (Finito 60)
     None None =
     (Inr (resultado_fallido msg_no_inicializado), nuevo_generador None,
      [EvCrearPipeline (args_de_config config_por_defecto),
       EvPrint ''Error al inicializar el pipeline: CUDA out of memory'']) \<and>
   (\<exists>r evs.
      generar_cancion entorno_reintento (nuevo_generador None)
        [EvCrearPipeline (args_de_config config_por_defecto),
         EvPrint ''Error al inicializar el pipeline: CUDA out of memory'']
        ''pop_latino'' None (Finito 60) None None =
        (r, (nuevo_generador None)\<lparr>pipeline := Some 7, inicializado := True\<rparr>,
         [EvCrearPipeline (args_de_config config_por_defecto),
          EvPrint ''Error al inicializar el pipeline: CUDA out of memory''] @
         EvCrearPipeline (args_de_config config_por_defecto) # evs) \<and>
      list_all (reusa 7) evs)"
proof -
  let ?g = "nuevo_generador None"
  let ?a = "args_de_config config_por_defecto"
  let ?t1 = "[EvCrearPipeline ?a,
              EvPrint ''Error al inicializar el pipeline: CUDA out of memory'']"
  have cfg: "config ?g = config_por_defecto" and no: "\<not> inicializado ?g"
    by (simp_all add: nuevo_generador_def)
  have primero: "ACEStepPipeline entorno_reintento [] (args_de_config (config ?g)) =
      Inl (Excepcion ''CUDA out of memory'')"
    by (simp add: entorno_reintento_def)
  have segundo: "ACEStepPipeline entorno_reintento ?t1 (args_de_config (config ?g)) = Inr 7"
    by (simp add: entorno_reintento_def cfg)
  show ?thesis
    using entrada_valida_por_defecto no primero segundo
      maquina_de_inicializacion [OF entrada_valida_por_defecto, of ?g entorno_reintento "[]"
        "''CUDA out of memory''" None None 7]
      maquina_de_inicializacion [OF entrada_valida_por_defecto, of ?g entorno_reintento ?t1
        "''CUDA out of memory''" None None 7]
    by (simp add: cfg)
qed

section \<open>The demo\<close>

lemma ruta_demo:
  "ruta_de_salida config_demo (Some (''demo_'' @ genero)) =
     ''./salidas_espanol/demo_'' @ genero @ ''.wav''"
  by (simp add: ruta_de_salida_def config_demo_def config_por_defecto_def os_path_join_def
      py_startswith_def)

lemma prompt_salsa:
  "map_of GENEROS_ESPANOL ''salsa'' = Some ''salsa, tropical, brass, piano, percussion, dance''"
  by (simp add: GENEROS_ESPANOL_def)

lemma entrada_valida_demo: "entrada_valida ''salsa'' None (Finito 30)"
  by (simp add: entrada_valida_def plantilla_amor_valida GENEROS_ESPANOL_def)

text \<open>
  C10. \<open>generar_demo\<close> is \<open>generar_cancion\<close> on a generator that has the demo
  configuration (the defaults but for duration 30, 27 inference steps and guidance scale 12)
  and the handle and the flag of \<open>self\<close>, with no lyric, duration 30, no seed and the
  file name \<open>demo_\<close> followed by the genre, so that the path handed down is
  \<open>./salidas_espanol/demo_<genre>.wav\<close>; the configuration of \<open>self\<close> has no effect on what
  it does, \<open>self\<close> is left as it was, and when \<open>self\<close> is initialised the demo constructs no
  pipeline and calls only the handle of \<open>self\<close>.
\<close>

theorem generar_demo_configuracion:
  "generar_demo env self tr genero =
     (case generar_cancion env
             \<lparr>config = config_demo, pipeline = pipeline self,
               inicializado = inicializado self\<rparr>
             tr genero None (Finito 30) None (Some (''demo_'' @ genero)) of
        (r, g, tr1) \<Rightarrow> (r, self, tr1)) \<and>
   config_demo =
     config_por_defecto\<lparr>duracion_segundos := 30, pasos_inferencia := 27, escala_guia := 12\<rparr> \<and>
   generar_demo env (self\<lparr>config := c\<rparr>) tr genero =
     (case generar_demo env self tr genero of (r, g, tr1) \<Rightarrow> (r, self\<lparr>config := c\<rparr>, tr1)) \<and>
   ruta_de_salida config_demo (Some (''demo_'' @ genero)) =
     ''./salidas_espanol/demo_'' @ genero @ ''.wav'' \<and>
   (inicializado self \<and> pipeline self = Some h \<longrightarrow>
      (\<exists>r evs. generar_demo env self tr genero = (r, self, tr @ evs) \<and>
         list_all (reusa h) evs))"
proof -
  let ?d = "\<lparr>config = config_demo, pipeline = pipeline self,
             inicializado = inicializado self\<rparr>"
  have a: "generar_demo env self tr genero =
     (case generar_cancion env ?d tr genero None (Finito 30) None (Some (''demo_'' @ genero)) of
        (r, g, tr1) \<Rightarrow> (r, self, tr1))"
    by (simp add: generar_demo_def nuevo_generador_def Let_def)
  have b: "generar_demo env (self\<lparr>config := c\<rparr>) tr genero =
     (case generar_demo env self tr genero of (r, g, tr1) \<Rightarrow> (r, self\<lparr>config := c\<rparr>, tr1))"
    by (simp add: generar_demo_def nuevo_generador_def Let_def split_beta)
  have d: "\<exists>r evs. generar_demo env self tr genero = (r, self, tr @ evs) \<and>
             list_all (reusa h) evs"
    if "inicializado self" and "pipeline self = Some h"
  proof -
    have "inicializado ?d" and "pipeline ?d = Some h"
      using that by simp_all
    from generar_cancion_listo [OF this, of env tr genero None "Finito 30" None
        "Some (''demo_'' @ genero)"]
    show ?thesis
      unfolding a by auto
  qed
  show ?thesis
    using a b d ruta_demo by (simp add: config_demo_def)
qed

theorem generar_demo_configuracion_witness:
  "generar_demo entorno_ok (nuevo_generador (Some config_personalizada)) [] ''salsa'' =
     (Inr (extraer_resultado resultado_ejemplo), nuevo_generador (Some config_personalizada),
      [EvCrearPipeline (args_de_config config_demo),
       EvMakedirs ''./salidas_espanol'',
       EvLlamada 7
         (argumentos_llamada config_demo (Finito 30)
            ''salsa, tropical, brass, piano, percussion, dance'' plantilla_amor None
            ''./salidas_espanol/demo_salsa.wav'')])"
proof -
  let ?d = "\<lparr>config = config_demo,
             pipeline = pipeline (nuevo_generador (Some config_personalizada)),
             inicializado = inicializado (nuevo_generador (Some config_personalizada))\<rparr>"
  have no: "\<not> inicializado ?d"
    by (simp add: nuevo_generador_def)
  have run: "generar_cancion entorno_ok ?d [] ''salsa'' None (Finito 30) None
      (Some (''demo_'' @ ''salsa'')) =
     (Inr (extraer_resultado resultado_ejemplo), ?d\<lparr>pipeline := Some 7, inicializado := True\<rparr>,
      [] @ [EvCrearPipeline (args_de_config (config ?d)),
       EvMakedirs (directorio_salida (config ?d)),
       EvLlamada 7
         (argumentos_llamada (config ?d) (Finito 30)
            ''salsa, tropical, brass, piano, percussion, dance''
            (case None of None \<Rightarrow> plantilla_amor | Some l \<Rightarrow> l)
            (resolver_semillas None (config ?d))
            (ruta_de_salida (config ?d) (Some (''demo_'' @ ''salsa''))))])"
    by (rule ejecucion_desde_cero [OF entrada_valida_demo no prompt_salsa])
      (simp_all add: entorno_ok_def)
  have dir: "directorio_salida config_demo = ''./salidas_espanol''"
    and sem: "semillas config_demo = None"
    by (simp_all add: config_demo_def config_por_defecto_def)
  show ?thesis
    using generar_demo_configuracion [of entorno_ok "nuevo_generador (Some config_personalizada)"
        "[]" "''salsa''" config_personalizada 7] run ruta_demo [of "''salsa''"]
    by (simp add: resolver_semillas_def dir sem)
qed

end
